theory Spec2Isabelle
  imports Main "HOL-Library.Word"
begin

unbundle bit_operations_syntax

section \<open>Machine integers and status words (lib/utility/status.h)\<close>

text \<open>
  The firmware's \<open>uint8_t\<close>, \<open>uint16_t\<close> and \<open>uint32_t\<close> are words of that width:
  addition and subtraction wrap around, comparisons are unsigned.
\<close>

type_synonym u8 = "8 word"
type_synonym u16 = "16 word"
type_synonym u32 = "32 word"

text \<open>
  The status macros work on a \<open>uint8_t\<close> status word and a bit mask.
  \<open>STATUS_SET\<close>, \<open>STATUS_CLR\<close> and \<open>STATUS_PUT\<close> assign to their first argument;
  the model returns the new status word.
\<close>

definition STATUS_SET :: "u8 \<Rightarrow> u8 \<Rightarrow> u8" where
  "STATUS_SET status m = status OR m"

definition STATUS_CLR :: "u8 \<Rightarrow> u8 \<Rightarrow> u8" where
  "STATUS_CLR status m = status AND NOT m"

definition STATUS_ANY :: "u8 \<Rightarrow> u8 \<Rightarrow> bool" where
  "STATUS_ANY status m = (status AND m \<noteq> 0)"

definition STATUS_NONE :: "u8 \<Rightarrow> u8 \<Rightarrow> bool" where
  "STATUS_NONE status m = (status AND m = 0)"

definition STATUS_PUT :: "u8 \<Rightarrow> u8 \<Rightarrow> bool \<Rightarrow> u8" where
  "STATUS_PUT status m val =
     (if val then STATUS_SET status m else STATUS_CLR status m)"

section \<open>CV input with hysteresis (lib/input/cv_input.c)\<close>

definition CV_DEFAULT_HIGH_THRESHOLD :: u8 where
  "CV_DEFAULT_HIGH_THRESHOLD = 128"

definition CV_DEFAULT_LOW_THRESHOLD :: u8 where
  "CV_DEFAULT_LOW_THRESHOLD = 77"

record CVInput =
  high_threshold :: u8
  low_threshold :: u8
  last_adc_value :: u8
  current_state :: bool

text \<open>
  The functions of this module take a \<open>CVInput *\<close> and return at once when it is NULL.
  The model passes the struct itself, so it covers the calls with a valid pointer.
\<close>

definition cv_input_init_custom :: "u8 \<Rightarrow> u8 \<Rightarrow> CVInput" where
  "cv_input_init_custom high low =
     \<lparr>high_threshold = high, low_threshold = low, last_adc_value = 0, current_state = False\<rparr>"

definition cv_input_init :: CVInput where
  "cv_input_init = cv_input_init_custom CV_DEFAULT_HIGH_THRESHOLD CV_DEFAULT_LOW_THRESHOLD"

text \<open>\<open>cv_input_update\<close> returns the new digital level and the updated struct.\<close>

definition cv_input_update :: "CVInput \<Rightarrow> u8 \<Rightarrow> bool \<times> CVInput" where
  "cv_input_update cv adc_value =
     (let cv1 = cv\<lparr>last_adc_value := adc_value\<rparr>;
          cv2 = (if current_state cv1
                 then (if adc_value < low_threshold cv1
                       then cv1\<lparr>current_state := False\<rparr> else cv1)
                 else (if adc_value > high_threshold cv1
                       then cv1\<lparr>current_state := True\<rparr> else cv1))
      in (current_state cv2, cv2))"

definition cv_input_get_state :: "CVInput \<Rightarrow> bool" where
  "cv_input_get_state cv = current_state cv"

text \<open>Feeding a sequence of ADC samples, collecting the level returned by each call.\<close>

fun cv_input_run :: "CVInput \<Rightarrow> u8 list \<Rightarrow> bool list" where
  "cv_input_run cv [] = []"
| "cv_input_run cv (x # xs) =
     (case cv_input_update cv x of (lvl, cv') \<Rightarrow> lvl # cv_input_run cv' xs)"

section \<open>Hardware abstraction layer (lib/hardware/hal_interface.h, sim_hal.c)\<close>

text \<open>
  The core reaches the hardware through the function pointers of \<open>HalInterface\<close>.
  The model of the hardware is the simulator HAL (\<open>sim_hal.c\<close>) with fault injection
  off: eight pins, 512 bytes of EEPROM, a millisecond counter and the ADC value of the
  CV input. Arrays are functions from the index; every access is guarded by the
  simulator's own range check. The watchdog of the simulator only prints a message and
  is left out.

  \<open>timer_running\<close> is not a variable of the simulator. It records whether the
  millisecond counter advances during a blocking delay (see \<open>util_delay_ms\<close> below).
\<close>

record HalState =
  pin_states :: "u8 \<Rightarrow> u8"
  sim_eeprom :: "u16 \<Rightarrow> u8"
  sim_time_ms :: u32
  sim_cv_voltage :: u8
  timer_running :: bool

definition SIM_NUM_PINS :: u8 where "SIM_NUM_PINS = 8"
definition SIM_EEPROM_SIZE :: u16 where "SIM_EEPROM_SIZE = 512"

text \<open>The pin assignments and the pin bound of the \<open>sim_hal\<close> interface value.\<close>

definition max_pin :: u8 where "max_pin = SIM_NUM_PINS - 1"
definition button_a_pin :: u8 where "button_a_pin = 2"
definition button_b_pin :: u8 where "button_b_pin = 4"
definition sig_out_pin :: u8 where "sig_out_pin = 1"

definition sim_set_pin :: "u8 \<Rightarrow> HalState \<Rightarrow> HalState" where
  "sim_set_pin p h =
     (if p \<ge> SIM_NUM_PINS then h else h\<lparr>pin_states := (pin_states h)(p := 1)\<rparr>)"

definition sim_clear_pin :: "u8 \<Rightarrow> HalState \<Rightarrow> HalState" where
  "sim_clear_pin p h =
     (if p \<ge> SIM_NUM_PINS then h else h\<lparr>pin_states := (pin_states h)(p := 0)\<rparr>)"

definition sim_toggle_pin :: "u8 \<Rightarrow> HalState \<Rightarrow> HalState" where
  "sim_toggle_pin p h =
     (if p \<ge> SIM_NUM_PINS then h
      else h\<lparr>pin_states := (pin_states h)(p := (if pin_states h p = 0 then 1 else 0))\<rparr>)"

definition sim_read_pin :: "HalState \<Rightarrow> u8 \<Rightarrow> u8" where
  "sim_read_pin h p = (if p \<ge> SIM_NUM_PINS then 0 else pin_states h p)"

definition sim_millis :: "HalState \<Rightarrow> u32" where
  "sim_millis h = sim_time_ms h"

definition sim_advance_time :: "u32 \<Rightarrow> HalState \<Rightarrow> HalState" where
  "sim_advance_time ms h = h\<lparr>sim_time_ms := sim_time_ms h + ms\<rparr>"

definition sim_eeprom_read_byte :: "HalState \<Rightarrow> u16 \<Rightarrow> u8" where
  "sim_eeprom_read_byte h addr = (if addr \<ge> SIM_EEPROM_SIZE then 0xFF else sim_eeprom h addr)"

definition sim_eeprom_write_byte :: "u16 \<Rightarrow> u8 \<Rightarrow> HalState \<Rightarrow> HalState" where
  "sim_eeprom_write_byte addr v h =
     (if addr \<ge> SIM_EEPROM_SIZE then h else h\<lparr>sim_eeprom := (sim_eeprom h)(addr := v)\<rparr>)"

definition sim_eeprom_read_word :: "HalState \<Rightarrow> u16 \<Rightarrow> u16" where
  "sim_eeprom_read_word h addr =
     (let lo = sim_eeprom_read_byte h addr;
          hi = sim_eeprom_read_byte h (addr + 1)
      in ucast lo OR push_bit 8 (ucast hi))"

definition sim_eeprom_write_word :: "u16 \<Rightarrow> u16 \<Rightarrow> HalState \<Rightarrow> HalState" where
  "sim_eeprom_write_word addr v h =
     sim_eeprom_write_byte (addr + 1) (ucast (drop_bit 8 v AND 0xFF))
       (sim_eeprom_write_byte addr (ucast (v AND 0xFF)) h)"

definition sim_adc_read :: "HalState \<Rightarrow> u8 \<Rightarrow> u8" where
  "sim_adc_read h channel = (if channel \<noteq> 3 then 0 else sim_cv_voltage h)"

text \<open>
  Modelled from the spec: \<open>util_delay_ms\<close> (utility/delay.h) is not among the sources.
  The spec describes a blocking delay of the given number of milliseconds, and a timer
  failure as a millisecond counter that does not advance across the delay. So the delay
  adds its argument to the counter when the timer runs and leaves the counter alone
  when it does not; nothing else changes.
\<close>

definition util_delay_ms :: "u32 \<Rightarrow> HalState \<Rightarrow> HalState" where
  "util_delay_ms ms h = (if timer_running h then sim_advance_time ms h else h)"

section \<open>Debounced button (lib/input/button.h, button.c)\<close>

definition TAP_TIMEOUT_MS :: u32 where "TAP_TIMEOUT_MS = 500"
definition TAPS_TO_CHANGE :: u8 where "TAPS_TO_CHANGE = 5"
definition HOLD_TIME_MS :: u32 where "HOLD_TIME_MS = 1000"
definition EDGE_DEBOUNCE_MS :: u32 where "EDGE_DEBOUNCE_MS = 5"

definition BTN_RAW :: u8 where "BTN_RAW = push_bit 0 1"
definition BTN_PRESSED :: u8 where "BTN_PRESSED = push_bit 1 1"
definition BTN_LAST :: u8 where "BTN_LAST = push_bit 2 1"
definition BTN_RISE :: u8 where "BTN_RISE = push_bit 3 1"
definition BTN_FALL :: u8 where "BTN_FALL = push_bit 4 1"
definition BTN_CONFIG :: u8 where "BTN_CONFIG = push_bit 5 1"
definition BTN_COUNTING :: u8 where "BTN_COUNTING = push_bit 6 1"

record Button =
  pin :: u8
  status :: u8
  tap_count :: u8
  last_rise_time :: u32
  last_fall_time :: u32
  last_tap_time :: u32

text \<open>
  The button functions only read the HAL (pin level and time), so they take the HAL
  state and return the updated button. \<open>button_init\<close> fails for a pin above the HAL's
  bound; the failure is \<open>None\<close>.
\<close>

definition button_reset :: "Button \<Rightarrow> Button" where
  "button_reset b =
     b\<lparr>status := 0, tap_count := 0, last_rise_time := 0, last_fall_time := 0,
       last_tap_time := 0\<rparr>"

definition button_init :: "u8 \<Rightarrow> Button option" where
  "button_init p =
     (if p > max_pin then None
      else Some (button_reset \<lparr>pin = p, status = 0, tap_count = 0, last_rise_time = 0,
                               last_fall_time = 0, last_tap_time = 0\<rparr>))"

definition button_has_rising_edge :: "HalState \<Rightarrow> Button \<Rightarrow> bool \<times> Button" where
  "button_has_rising_edge h b =
     (if STATUS_ANY (status b) BTN_RAW \<and> STATUS_NONE (status b) BTN_LAST
      then (if sim_millis h - last_rise_time b > EDGE_DEBOUNCE_MS
            then (True, b\<lparr>last_rise_time := sim_millis h\<rparr>)
            else (False, b))
      else (False, b))"

definition button_has_falling_edge :: "HalState \<Rightarrow> Button \<Rightarrow> bool \<times> Button" where
  "button_has_falling_edge h b =
     (if STATUS_NONE (status b) BTN_RAW \<and> STATUS_ANY (status b) BTN_LAST
      then (if sim_millis h - last_fall_time b > EDGE_DEBOUNCE_MS
            then (True, b\<lparr>last_fall_time := sim_millis h\<rparr>)
            else (False, b))
      else (False, b))"

definition button_detect_config_action :: "HalState \<Rightarrow> Button \<Rightarrow> bool \<times> Button" where
  "button_detect_config_action h b =
     (let current_time = sim_millis h;
          b1 = (if STATUS_ANY (status b) BTN_RISE
                then (let b' = (if current_time - last_tap_time b \<le> TAP_TIMEOUT_MS
                                then b\<lparr>tap_count := tap_count b + 1\<rparr>
                                else b\<lparr>tap_count := 1\<rparr>);
                          b'' = b'\<lparr>last_tap_time := current_time\<rparr>
                      in if tap_count b'' \<ge> TAPS_TO_CHANGE
                         then b''\<lparr>status := STATUS_SET (status b'') BTN_COUNTING\<rparr>
                         else b'')
                else b);
          (action_detected, b2) =
               (if STATUS_ANY (status b1) BTN_COUNTING \<and> STATUS_ANY (status b1) BTN_PRESSED
                then (if current_time - last_tap_time b1 \<ge> HOLD_TIME_MS
                      then (True, b1\<lparr>status := STATUS_CLR (status b1) BTN_COUNTING,
                                      tap_count := 0\<rparr>)
                      else (False, b1))
                else (False, b1));
          b3 = (if STATUS_NONE (status b2) BTN_PRESSED
                then (let b' = b2\<lparr>status := STATUS_CLR (status b2) BTN_COUNTING\<rparr>
                      in if current_time - last_tap_time b' > TAP_TIMEOUT_MS
                         then b'\<lparr>tap_count := 0\<rparr> else b')
                else b2)
      in (action_detected, b3))"

text \<open>
  \<open>button_update\<close> is one C function of five steps, which the model keeps as five
  definitions in source order: sampling the pin and clearing the edge flags, the
  rising edge, the falling edge, the config action, and the copy of the pressed bit
  into \<open>BTN_LAST\<close>.
\<close>

definition button_sample :: "HalState \<Rightarrow> Button \<Rightarrow> Button" where
  "button_sample h b =
     (let b1 = b\<lparr>status := STATUS_PUT (status b) BTN_RAW (sim_read_pin h (pin b) = 0)\<rparr>
      in b1\<lparr>status := STATUS_CLR (status b1) (BTN_RISE OR BTN_FALL)\<rparr>)"

definition button_rise_step :: "HalState \<Rightarrow> Button \<Rightarrow> Button" where
  "button_rise_step h b =
     (case button_has_rising_edge h b of
        (rise, b') \<Rightarrow>
          if rise then b'\<lparr>status := STATUS_SET (status b') (BTN_RISE OR BTN_PRESSED)\<rparr>
          else b')"

definition button_fall_step :: "HalState \<Rightarrow> Button \<Rightarrow> Button" where
  "button_fall_step h b =
     (case button_has_falling_edge h b of
        (fall, b') \<Rightarrow>
          if fall
          then b'\<lparr>status := STATUS_CLR (STATUS_SET (status b') BTN_FALL) BTN_PRESSED\<rparr>
          else b')"

definition button_config_step :: "HalState \<Rightarrow> Button \<Rightarrow> Button" where
  "button_config_step h b =
     (case button_detect_config_action h b of
        (config, b') \<Rightarrow>
          if config then b'\<lparr>status := STATUS_SET (status b') BTN_CONFIG\<rparr> else b')"

definition button_store_last :: "Button \<Rightarrow> Button" where
  "button_store_last b =
     b\<lparr>status := STATUS_PUT (status b) BTN_LAST (STATUS_ANY (status b) BTN_PRESSED)\<rparr>"

definition button_update :: "HalState \<Rightarrow> Button \<Rightarrow> Button" where
  "button_update h b =
     button_store_last (button_config_step h (button_fall_step h (button_rise_step h
       (button_sample h b))))"

section \<open>CV output (lib/output/cv_output.h, cv_output.c)\<close>

definition PULSE_DURATION_MS :: u32 where "PULSE_DURATION_MS = 10"

definition CVOUT_STATE :: u8 where "CVOUT_STATE = push_bit 0 1"
definition CVOUT_PULSE :: u8 where "CVOUT_PULSE = push_bit 1 1"
definition CVOUT_LAST_IN :: u8 where "CVOUT_LAST_IN = push_bit 2 1"

record CVOutput =
  pin :: u8
  status :: u8
  pulse_start :: u32

text \<open>
  The output functions drive the pin through the HAL, so they take and return the HAL
  state next to the \<open>CVOutput\<close> struct.
\<close>

definition cv_output_init :: "u8 \<Rightarrow> CVOutput" where
  "cv_output_init p = \<lparr>pin = p, status = 0, pulse_start = 0\<rparr>"

definition cv_output_reset :: "CVOutput \<Rightarrow> HalState \<Rightarrow> CVOutput \<times> HalState" where
  "cv_output_reset cv h = (cv\<lparr>status := 0, pulse_start := 0\<rparr>, sim_clear_pin (pin cv) h)"

definition cv_output_set :: "CVOutput \<Rightarrow> HalState \<Rightarrow> CVOutput \<times> HalState" where
  "cv_output_set cv h =
     (cv\<lparr>status := STATUS_SET (status cv) CVOUT_STATE\<rparr>, sim_set_pin (pin cv) h)"

definition cv_output_clear :: "CVOutput \<Rightarrow> HalState \<Rightarrow> CVOutput \<times> HalState" where
  "cv_output_clear cv h =
     (cv\<lparr>status := STATUS_CLR (status cv) CVOUT_STATE\<rparr>, sim_clear_pin (pin cv) h)"

definition cv_output_update_gate ::
  "CVOutput \<Rightarrow> bool \<Rightarrow> HalState \<Rightarrow> bool \<times> CVOutput \<times> HalState" where
  "cv_output_update_gate cv input_state h =
     (let (cv1, h1) = (if input_state then cv_output_set cv h else cv_output_clear cv h)
      in (STATUS_ANY (status cv1) CVOUT_STATE, cv1, h1))"

definition cv_output_update_pulse ::
  "CVOutput \<Rightarrow> bool \<Rightarrow> HalState \<Rightarrow> bool \<times> CVOutput \<times> HalState" where
  "cv_output_update_pulse cv input_state h =
     (let last_input = STATUS_ANY (status cv) CVOUT_LAST_IN;
          (cv1, h1) =
             (if input_state \<and> \<not> last_input
              then (let cv' = cv\<lparr>pulse_start := sim_millis h\<rparr>;
                        cv'' = cv'\<lparr>status := STATUS_SET (status cv') CVOUT_PULSE\<rparr>
                    in cv_output_set cv'' h)
              else (cv, h));
          (cv2, h2) =
             (if STATUS_ANY (status cv1) CVOUT_PULSE
              then (let current_time = sim_millis h1
                    in if current_time - pulse_start cv1 \<ge> PULSE_DURATION_MS
                       then cv_output_clear
                              (cv1\<lparr>status := STATUS_CLR (status cv1) CVOUT_PULSE\<rparr>) h1
                       else (cv1, h1))
              else (cv1, h1));
          cv3 = cv2\<lparr>status := STATUS_PUT (status cv2) CVOUT_LAST_IN input_state\<rparr>
      in (STATUS_ANY (status cv3) CVOUT_STATE, cv3, h2))"

definition cv_output_update_toggle ::
  "CVOutput \<Rightarrow> bool \<Rightarrow> HalState \<Rightarrow> bool \<times> CVOutput \<times> HalState" where
  "cv_output_update_toggle cv input_state h =
     (let last_input = STATUS_ANY (status cv) CVOUT_LAST_IN;
          (cv1, h1) =
             (if input_state \<and> \<not> last_input
              then (if STATUS_ANY (status cv) CVOUT_STATE
                    then cv_output_clear cv h else cv_output_set cv h)
              else (cv, h));
          cv2 = cv1\<lparr>status := STATUS_PUT (status cv1) CVOUT_LAST_IN input_state\<rparr>
      in (STATUS_ANY (status cv2) CVOUT_STATE, cv2, h1))"

text \<open>
  The main loop calls the output operation once per tick of 1 ms. \<open>pulse_ticks\<close> runs
  \<open>cv_output_update_pulse\<close> on one input sample per tick, the clock advancing by 1 ms
  after each call, and collects the output level of each tick.
\<close>

fun pulse_ticks :: "CVOutput \<Rightarrow> HalState \<Rightarrow> bool list \<Rightarrow> bool list" where
  "pulse_ticks cv h [] = []"
| "pulse_ticks cv h (x # xs) =
     (case cv_output_update_pulse cv x h of
        (out, cv', h') \<Rightarrow> out # pulse_ticks cv' (sim_advance_time 1 h') xs)"

text \<open>
  The reference for the pulse output, in the words of the amended claim C2: the output
  is high at a tick exactly when fewer than 10 ticks have passed since the most recent
  rising edge of the input. \<open>age\<close> is the number of ticks since that edge (\<open>None\<close>
  before the first edge) and \<open>prev\<close> the previous input sample.
\<close>

fun pulse_level :: "bool \<Rightarrow> nat option \<Rightarrow> bool list \<Rightarrow> bool list" where
  "pulse_level prev age [] = []"
| "pulse_level prev age (x # xs) =
     (let age' = (if x \<and> \<not> prev then Some 0 else map_option Suc age)
      in (case age' of None \<Rightarrow> False | Some a \<Rightarrow> a < 10) # pulse_level x age' xs)"

section \<open>Event processor (lib/events/events.h, events.c)\<close>

datatype Event =
    EVT_NONE
  | EVT_A_PRESS | EVT_B_PRESS | EVT_CV_RISE | EVT_CV_FALL
  | EVT_A_TAP | EVT_A_RELEASE | EVT_B_TAP | EVT_B_RELEASE
  | EVT_A_HOLD | EVT_B_HOLD
  | EVT_MENU_TOGGLE | EVT_MODE_NEXT
  | EVT_TIMEOUT

text \<open>The value of each enumerator, as the FSM engine receives it in a \<open>uint8_t\<close>.\<close>

fun event_id :: "Event \<Rightarrow> u8" where
  "event_id EVT_NONE = 0"
| "event_id EVT_A_PRESS = 1"
| "event_id EVT_B_PRESS = 2"
| "event_id EVT_CV_RISE = 3"
| "event_id EVT_CV_FALL = 4"
| "event_id EVT_A_TAP = 5"
| "event_id EVT_A_RELEASE = 6"
| "event_id EVT_B_TAP = 7"
| "event_id EVT_B_RELEASE = 8"
| "event_id EVT_A_HOLD = 9"
| "event_id EVT_B_HOLD = 10"
| "event_id EVT_MENU_TOGGLE = 11"
| "event_id EVT_MODE_NEXT = 12"
| "event_id EVT_TIMEOUT = 13"

definition EP_A_PRESSED :: u8 where "EP_A_PRESSED = push_bit 0 1"
definition EP_A_LAST :: u8 where "EP_A_LAST = push_bit 1 1"
definition EP_A_HOLD :: u8 where "EP_A_HOLD = push_bit 2 1"
definition EP_B_PRESSED :: u8 where "EP_B_PRESSED = push_bit 3 1"
definition EP_B_LAST :: u8 where "EP_B_LAST = push_bit 4 1"
definition EP_B_HOLD :: u8 where "EP_B_HOLD = push_bit 5 1"
definition EP_CV_STATE :: u8 where "EP_CV_STATE = push_bit 6 1"
definition EP_CV_LAST :: u8 where "EP_CV_LAST = push_bit 7 1"

definition EP_COMPOUND_FIRED :: u8 where "EP_COMPOUND_FIRED = push_bit 0 1"
definition EP_B_TOUCHED_DURING_A :: u8 where "EP_B_TOUCHED_DURING_A = push_bit 1 1"

definition EP_HOLD_THRESHOLD_MS :: u32 where "EP_HOLD_THRESHOLD_MS = 500"

record EventProcessor =
  status :: u8
  ext_status :: u8
  a_press_time :: u32
  b_press_time :: u32

record EventInput =
  button_a :: bool
  button_b :: bool
  cv_in :: bool
  current_time :: u32

definition event_processor_init :: EventProcessor where
  "event_processor_init = \<lparr>status = 0, ext_status = 0, a_press_time = 0, b_press_time = 0\<rparr>"

definition event_processor_reset :: "EventProcessor \<Rightarrow> EventProcessor" where
  "event_processor_reset ep = ep\<lparr>status := 0, ext_status := 0, a_press_time := 0, b_press_time := 0\<rparr>"

text \<open>
  \<open>event_processor_update\<close> is one C function. The model follows its blocks in source
  order, each block a definition that takes and returns the local variable \<open>event\<close>
  and the struct: storing the inputs, button A, button B, the compound gesture, the
  CV edge and the copy of the current bits into the "last" bits.
\<close>

definition ep_store_inputs :: "EventInput \<Rightarrow> EventProcessor \<Rightarrow> EventProcessor" where
  "ep_store_inputs inp ep =
     (let ep1 = ep\<lparr>status := STATUS_PUT (status ep) EP_A_PRESSED (button_a inp)\<rparr>;
          ep2 = ep1\<lparr>status := STATUS_PUT (status ep1) EP_B_PRESSED (button_b inp)\<rparr>
      in ep2\<lparr>status := STATUS_PUT (status ep2) EP_CV_STATE (cv_in inp)\<rparr>)"

definition ep_button_a :: "u32 \<Rightarrow> Event \<times> EventProcessor \<Rightarrow> Event \<times> EventProcessor" where
  "ep_button_a now = (\<lambda>(event, ep).
     (let a_pressed = STATUS_ANY (status ep) EP_A_PRESSED;
          a_was_pressed = STATUS_ANY (status ep) EP_A_LAST
      in if a_pressed \<and> \<not> a_was_pressed
         then (EVT_A_PRESS,
               ep\<lparr>a_press_time := now,
                   status := STATUS_CLR (status ep) EP_A_HOLD,
                   ext_status := ext_status ep AND NOT EP_B_TOUCHED_DURING_A\<rparr>)
         else if \<not> a_pressed \<and> a_was_pressed
         then ((if \<not> STATUS_ANY (status ep) EP_A_HOLD then EVT_A_TAP
                else if ext_status ep AND EP_B_TOUCHED_DURING_A = 0
                        \<and> ext_status ep AND EP_COMPOUND_FIRED = 0
                then EVT_MODE_NEXT
                else EVT_A_RELEASE),
               ep\<lparr>status := STATUS_CLR (status ep) EP_A_HOLD\<rparr>)
         else if a_pressed \<and> \<not> STATUS_ANY (status ep) EP_A_HOLD
         then (if now - a_press_time ep \<ge> EP_HOLD_THRESHOLD_MS
               then (let ep' = ep\<lparr>status := STATUS_SET (status ep) EP_A_HOLD\<rparr>
                     in if \<not> STATUS_ANY (status ep') EP_B_PRESSED
                        then (EVT_A_HOLD, ep') else (event, ep'))
               else (event, ep))
         else (event, ep)))"

definition ep_button_b :: "u32 \<Rightarrow> Event \<times> EventProcessor \<Rightarrow> Event \<times> EventProcessor" where
  "ep_button_b now = (\<lambda>(event, ep).
     (let b_pressed = STATUS_ANY (status ep) EP_B_PRESSED;
          b_was_pressed = STATUS_ANY (status ep) EP_B_LAST
      in if b_pressed \<and> \<not> b_was_pressed
         then (let ep1 = ep\<lparr>b_press_time := now,
                             status := STATUS_CLR (status ep) EP_B_HOLD\<rparr>;
                   ep2 = (if STATUS_ANY (status ep1) EP_A_HOLD
                          then ep1\<lparr>ext_status := ext_status ep1 OR EP_B_TOUCHED_DURING_A\<rparr>
                          else ep1)
               in ((if event = EVT_NONE then EVT_B_PRESS else event), ep2))
         else if \<not> b_pressed \<and> b_was_pressed
         then ((if event = EVT_NONE
                then (if \<not> STATUS_ANY (status ep) EP_B_HOLD then EVT_B_TAP else EVT_B_RELEASE)
                else event),
               ep\<lparr>status := STATUS_CLR (status ep) EP_B_HOLD\<rparr>)
         else if b_pressed \<and> \<not> STATUS_ANY (status ep) EP_B_HOLD
         then (if now - b_press_time ep \<ge> EP_HOLD_THRESHOLD_MS
               then ((if event = EVT_NONE then EVT_B_HOLD else event),
                     ep\<lparr>status := STATUS_SET (status ep) EP_B_HOLD\<rparr>)
               else (event, ep))
         else (event, ep)))"

text \<open>
  The compound block and the clearing of the compound flag. \<open>a_pressed\<close> and
  \<open>b_pressed\<close> are the locals read at the start of the button blocks; the blocks do not
  change the two "pressed" bits, so the locals equal the bits tested here.
\<close>

definition ep_compound :: "Event \<times> EventProcessor \<Rightarrow> Event \<times> EventProcessor" where
  "ep_compound = (\<lambda>(event, ep).
     (let a_pressed = STATUS_ANY (status ep) EP_A_PRESSED;
          b_pressed = STATUS_ANY (status ep) EP_B_PRESSED;
          (event1, ep1) =
             (if ext_status ep AND EP_COMPOUND_FIRED = 0
              then (if event = EVT_B_HOLD \<and> STATUS_ANY (status ep) EP_A_PRESSED
                       \<and> a_press_time ep < b_press_time ep
                    then (EVT_MENU_TOGGLE, ep\<lparr>ext_status := ext_status ep OR EP_COMPOUND_FIRED\<rparr>)
                    else (event, ep))
              else (event, ep));
          ep2 = (if \<not> a_pressed \<and> \<not> b_pressed
                 then ep1\<lparr>ext_status := ext_status ep1 AND NOT EP_COMPOUND_FIRED\<rparr>
                 else ep1)
      in (event1, ep2)))"

definition ep_cv_edge :: "Event \<times> EventProcessor \<Rightarrow> Event \<times> EventProcessor" where
  "ep_cv_edge = (\<lambda>(event, ep).
     (let cv_high = STATUS_ANY (status ep) EP_CV_STATE;
          cv_was_high = STATUS_ANY (status ep) EP_CV_LAST
      in ((if event = EVT_NONE
           then (if cv_high \<and> \<not> cv_was_high then EVT_CV_RISE
                 else if \<not> cv_high \<and> cv_was_high then EVT_CV_FALL
                 else event)
           else event), ep)))"

definition ep_update_last :: "Event \<times> EventProcessor \<Rightarrow> Event \<times> EventProcessor" where
  "ep_update_last = (\<lambda>(event, ep).
     (let a_pressed = STATUS_ANY (status ep) EP_A_PRESSED;
          b_pressed = STATUS_ANY (status ep) EP_B_PRESSED;
          cv_high = STATUS_ANY (status ep) EP_CV_STATE;
          ep1 = ep\<lparr>status := STATUS_PUT (status ep) EP_A_LAST a_pressed\<rparr>;
          ep2 = ep1\<lparr>status := STATUS_PUT (status ep1) EP_B_LAST b_pressed\<rparr>
      in (event, ep2\<lparr>status := STATUS_PUT (status ep2) EP_CV_LAST cv_high\<rparr>)))"

definition event_processor_update ::
  "EventProcessor \<Rightarrow> EventInput \<Rightarrow> Event \<times> EventProcessor" where
  "event_processor_update ep inp =
     (let now = current_time inp
      in ep_update_last (ep_cv_edge (ep_compound (ep_button_b now (ep_button_a now
           (EVT_NONE, ep_store_inputs inp ep))))))"

definition event_processor_a_pressed :: "EventProcessor \<Rightarrow> bool" where
  "event_processor_a_pressed ep = STATUS_ANY (status ep) EP_A_PRESSED"

definition event_processor_b_pressed :: "EventProcessor \<Rightarrow> bool" where
  "event_processor_b_pressed ep = STATUS_ANY (status ep) EP_B_PRESSED"

definition event_processor_a_holding :: "EventProcessor \<Rightarrow> bool" where
  "event_processor_a_holding ep = STATUS_ANY (status ep) EP_A_HOLD"

definition event_processor_b_holding :: "EventProcessor \<Rightarrow> bool" where
  "event_processor_b_holding ep = STATUS_ANY (status ep) EP_B_HOLD"

text \<open>
  Running the event processor over a sequence of inputs, one call per tick. The result
  is the event returned by each call, in order, and the final state.
\<close>

fun event_processor_run ::
  "EventProcessor \<Rightarrow> EventInput list \<Rightarrow> Event list \<times> EventProcessor" where
  "event_processor_run ep [] = ([], ep)"
| "event_processor_run ep (i # is) =
     (case event_processor_update ep i of
        (e, ep') \<Rightarrow> (case event_processor_run ep' is of (es, ep'') \<Rightarrow> (e # es, ep'')))"

text \<open>
  The solo hold of claim C7, one call per tick of 1 ms: button A becomes pressed at
  time \<open>t\<close>, stays pressed on the ticks \<open>t + 1\<close> to \<open>t + 599\<close> and is released
  at \<open>t + 600\<close>; button B is never pressed and the CV level is \<open>c\<close> throughout.
\<close>

definition solo_hold_input :: "u32 \<Rightarrow> bool \<Rightarrow> nat \<Rightarrow> EventInput" where
  "solo_hold_input t c k =
     \<lparr>button_a = (k < 600), button_b = False, cv_in = c, current_time = t + of_nat k\<rparr>"

definition solo_hold_inputs :: "u32 \<Rightarrow> bool \<Rightarrow> EventInput list" where
  "solo_hold_inputs t c = map (solo_hold_input t c) [0..<601]"

text \<open>
  The state of the event processor while A is held alone since time \<open>t\<close> with the CV
  level at \<open>c\<close>: \<open>l\<close> tells whether the hold has been latched.
\<close>

definition ep_a_held :: "u32 \<Rightarrow> bool \<Rightarrow> bool \<Rightarrow> EventProcessor \<Rightarrow> bool" where
  "ep_a_held t c l ep =
     (STATUS_ANY (status ep) EP_A_PRESSED \<and> STATUS_ANY (status ep) EP_A_LAST
      \<and> STATUS_ANY (status ep) EP_A_HOLD = l
      \<and> \<not> STATUS_ANY (status ep) EP_B_PRESSED \<and> \<not> STATUS_ANY (status ep) EP_B_LAST
      \<and> STATUS_ANY (status ep) EP_CV_STATE = c \<and> STATUS_ANY (status ep) EP_CV_LAST = c
      \<and> ext_status ep AND EP_COMPOUND_FIRED = 0
      \<and> ext_status ep AND EP_B_TOUCHED_DURING_A = 0
      \<and> a_press_time ep = t)"

section \<open>Generic state machine engine (lib/fsm/fsm.h, fsm.c)\<close>

definition FSM_NO_TRANSITION :: u8 where "FSM_NO_TRANSITION = 0xFF"
definition FSM_ANY_STATE :: u8 where "FSM_ANY_STATE = 0xFE"

text \<open>
  The callbacks of the engine are functions \<open>void (*)(void)\<close> that work on global
  state. In the model a callback is a function on the global state \<open>'g\<close>, and a NULL
  function pointer is \<open>None\<close>. The field \<open>id\<close> of \<open>struct State\<close> is \<open>id_state\<close> here.
\<close>

record 'g State =
  id_state :: u8
  on_enter :: "('g \<Rightarrow> 'g) option"
  on_exit :: "('g \<Rightarrow> 'g) option"
  on_update :: "('g \<Rightarrow> 'g) option"

record 'g Transition =
  from_state :: u8
  event :: u8
  to_state :: u8
  action :: "('g \<Rightarrow> 'g) option"

text \<open>
  An FSM instance holds pointers to its two tables, which are constant arrays in program
  memory. \<open>'ps\<close> and \<open>'pt\<close> are the types of these pointers (\<open>None\<close> is NULL); the
  engine reads a table through the program memory it is given, a function from the
  pointer to the rows. The loops of the engine run over the first \<open>num_states\<close>
  (\<open>num_transitions\<close>) rows; a count larger than the array, which makes the C code read
  past the array, is outside the model.
\<close>

record ('ps, 'pt) FSM =
  states :: "'ps option"
  transitions :: "'pt option"
  num_states :: u8
  num_transitions :: u8
  current_state :: u8
  initial_state :: u8
  active :: bool

text \<open>
  The engine gets the instance as \<open>FSM *\<close>, and a callback may change the very instance
  the engine is working on. So the pointer is modelled by the pair of functions that
  read the instance from the global state and write it back. The NULL checks on this
  pointer are outside the model.
\<close>

record ('g, 'ps, 'pt) fsm_ptr =
  fsm_get :: "'g \<Rightarrow> ('ps, 'pt) FSM"
  fsm_put :: "('ps, 'pt) FSM \<Rightarrow> 'g \<Rightarrow> 'g"

fun find_state_loop :: "'g State list \<Rightarrow> u8 \<Rightarrow> u8 \<Rightarrow> u8" where
  "find_state_loop [] state_id i = 0xFF"
| "find_state_loop (s # ss) state_id i =
     (if id_state s = state_id then i else find_state_loop ss state_id (i + 1))"

definition find_state_index ::
  "('ps \<Rightarrow> 'g State list) \<Rightarrow> ('ps, 'pt) FSM \<Rightarrow> u8 \<Rightarrow> u8" where
  "find_state_index pgm fsm state_id =
     (case states fsm of
        None \<Rightarrow> 0xFF
      | Some p \<Rightarrow> find_state_loop (take (unat (num_states fsm)) (pgm p)) state_id 0)"

definition call_entry_action ::
  "('ps \<Rightarrow> 'g State list) \<Rightarrow> ('ps, 'pt) FSM \<Rightarrow> u8 \<Rightarrow> 'g \<Rightarrow> 'g" where
  "call_entry_action pgm fsm state_id g =
     (let idx = find_state_index pgm fsm state_id
      in if idx = 0xFF then g
         else (case on_enter (pgm (the (states fsm)) ! unat idx) of
                 None \<Rightarrow> g
               | Some f \<Rightarrow> f g))"

definition call_exit_action ::
  "('ps \<Rightarrow> 'g State list) \<Rightarrow> ('ps, 'pt) FSM \<Rightarrow> u8 \<Rightarrow> 'g \<Rightarrow> 'g" where
  "call_exit_action pgm fsm state_id g =
     (let idx = find_state_index pgm fsm state_id
      in if idx = 0xFF then g
         else (case on_exit (pgm (the (states fsm)) ! unat idx) of
                 None \<Rightarrow> g
               | Some f \<Rightarrow> f g))"

definition fsm_init ::
  "'ps option \<Rightarrow> u8 \<Rightarrow> 'pt option \<Rightarrow> u8 \<Rightarrow> u8 \<Rightarrow> ('ps, 'pt) FSM" where
  "fsm_init sts n_states trs n_trans initial =
     \<lparr>states = sts, transitions = trs, num_states = n_states, num_transitions = n_trans,
      current_state = initial, initial_state = initial, active = False\<rparr>"

definition fsm_start ::
  "('ps \<Rightarrow> 'g State list) \<Rightarrow> ('g, 'ps, 'pt) fsm_ptr \<Rightarrow> 'g \<Rightarrow> 'g" where
  "fsm_start pgm fp g =
     (let g1 = fsm_put fp ((fsm_get fp g)\<lparr>active := True\<rparr>) g
      in call_entry_action pgm (fsm_get fp g1) (current_state (fsm_get fp g1)) g1)"

text \<open>
  The search loop of \<open>fsm_process_event\<close> over the rows of the transition table. The
  second component of the result is the global state after the callbacks have run.
\<close>

fun fsm_process_loop ::
  "('ps \<Rightarrow> 'g State list) \<Rightarrow> ('g, 'ps, 'pt) fsm_ptr \<Rightarrow> u8 \<Rightarrow> 'g Transition list \<Rightarrow> 'g
     \<Rightarrow> bool \<times> 'g" where
  "fsm_process_loop pgm fp ev [] g = (False, g)"
| "fsm_process_loop pgm fp ev (t # ts) g =
     (let state_matches = (from_state t = current_state (fsm_get fp g)
                            \<or> from_state t = FSM_ANY_STATE);
          event_matches = (event t = ev)
      in if state_matches \<and> event_matches
         then (if to_state t = FSM_NO_TRANSITION
               then (False, (case action t of None \<Rightarrow> g | Some f \<Rightarrow> f g))
               else (let g1 = call_exit_action pgm (fsm_get fp g)
                                (current_state (fsm_get fp g)) g;
                         g2 = (case action t of None \<Rightarrow> g1 | Some f \<Rightarrow> f g1);
                         g3 = fsm_put fp ((fsm_get fp g2)\<lparr>current_state := to_state t\<rparr>) g2;
                         g4 = call_entry_action pgm (fsm_get fp g3)
                                (current_state (fsm_get fp g3)) g3
                     in (True, g4)))
         else fsm_process_loop pgm fp ev ts g)"

definition fsm_process_event ::
  "('ps \<Rightarrow> 'g State list) \<Rightarrow> ('pt \<Rightarrow> 'g Transition list) \<Rightarrow> ('g, 'ps, 'pt) fsm_ptr
     \<Rightarrow> u8 \<Rightarrow> 'g \<Rightarrow> bool \<times> 'g" where
  "fsm_process_event pgm pgm_t fp ev g =
     (let fsm = fsm_get fp g
      in if \<not> active fsm then (False, g)
         else (case transitions fsm of
                 None \<Rightarrow> (False, g)
               | Some p \<Rightarrow>
                   fsm_process_loop pgm fp ev (take (unat (num_transitions fsm)) (pgm_t p)) g))"

definition fsm_update ::
  "('ps \<Rightarrow> 'g State list) \<Rightarrow> ('g, 'ps, 'pt) fsm_ptr \<Rightarrow> 'g \<Rightarrow> 'g" where
  "fsm_update pgm fp g =
     (let fsm = fsm_get fp g
      in if \<not> active fsm then g
         else (let idx = find_state_index pgm fsm (current_state fsm)
               in if idx = 0xFF then g
                  else (case on_update (pgm (the (states fsm)) ! unat idx) of
                          None \<Rightarrow> g
                        | Some f \<Rightarrow> f g)))"

definition fsm_reset ::
  "('ps \<Rightarrow> 'g State list) \<Rightarrow> ('g, 'ps, 'pt) fsm_ptr \<Rightarrow> 'g \<Rightarrow> 'g" where
  "fsm_reset pgm fp g =
     (let g1 = (if active (fsm_get fp g)
                then call_exit_action pgm (fsm_get fp g) (current_state (fsm_get fp g)) g
                else g);
          g2 = fsm_put fp ((fsm_get fp g1)\<lparr>current_state := initial_state (fsm_get fp g1)\<rparr>) g1
      in if active (fsm_get fp g2)
         then call_entry_action pgm (fsm_get fp g2) (initial_state (fsm_get fp g2)) g2
         else g2)"

definition fsm_stop ::
  "('ps \<Rightarrow> 'g State list) \<Rightarrow> ('g, 'ps, 'pt) fsm_ptr \<Rightarrow> 'g \<Rightarrow> 'g" where
  "fsm_stop pgm fp g =
     (if \<not> active (fsm_get fp g) then g
      else (let g1 = call_exit_action pgm (fsm_get fp g) (current_state (fsm_get fp g)) g
            in fsm_put fp ((fsm_get fp g1)\<lparr>active := False\<rparr>) g1))"

definition fsm_get_state :: "('ps, 'pt) FSM \<Rightarrow> u8" where
  "fsm_get_state fsm = current_state fsm"

definition fsm_set_state ::
  "('ps \<Rightarrow> 'g State list) \<Rightarrow> ('g, 'ps, 'pt) fsm_ptr \<Rightarrow> u8 \<Rightarrow> 'g \<Rightarrow> 'g" where
  "fsm_set_state pgm fp state_id g =
     (let g1 = (if active (fsm_get fp g)
                then call_exit_action pgm (fsm_get fp g) (current_state (fsm_get fp g)) g
                else g);
          g2 = fsm_put fp ((fsm_get fp g1)\<lparr>current_state := state_id\<rparr>) g1
      in if active (fsm_get fp g2)
         then call_entry_action pgm (fsm_get fp g2) state_id g2
         else g2)"

definition fsm_is_active :: "('ps, 'pt) FSM \<Rightarrow> bool" where
  "fsm_is_active fsm = active fsm"

section \<open>Settings store and startup (app_init.h, app_init.c, config/mode_config.h)\<close>

definition EEPROM_MAGIC_ADDR :: u16 where "EEPROM_MAGIC_ADDR = 0x00"
definition EEPROM_SCHEMA_ADDR :: u16 where "EEPROM_SCHEMA_ADDR = 0x02"
definition EEPROM_SETTINGS_ADDR :: u16 where "EEPROM_SETTINGS_ADDR = 0x03"
definition EEPROM_CHECKSUM_ADDR :: u16 where "EEPROM_CHECKSUM_ADDR = 0x10"
definition EEPROM_MAGIC_VALUE :: u16 where "EEPROM_MAGIC_VALUE = 0x474B"
definition SETTINGS_SCHEMA_VERSION :: u8 where "SETTINGS_SCHEMA_VERSION = 2"

definition APP_INIT_RESET_HOLD_MS :: u32 where "APP_INIT_RESET_HOLD_MS = 3000"
definition APP_INIT_RESET_POLL_MS :: u32 where "APP_INIT_RESET_POLL_MS = 50"
definition APP_INIT_RESET_BLINK_MS :: u32 where "APP_INIT_RESET_BLINK_MS = 100"
definition DEFAULTS_BLINK_COUNT :: nat where "DEFAULTS_BLINK_COUNT = 2"
definition APP_INIT_RESET_MAX_ITERATIONS :: nat where
  "APP_INIT_RESET_MAX_ITERATIONS = 3000 div 50 + 20"

text \<open>The enumerators of \<open>ModeState\<close>, \<open>TopState\<close> and \<open>MenuPage\<close> (core/states.h).\<close>

definition MODE_GATE :: u8 where "MODE_GATE = 0"
definition MODE_TRIGGER :: u8 where "MODE_TRIGGER = 1"
definition MODE_TOGGLE :: u8 where "MODE_TOGGLE = 2"
definition MODE_DIVIDE :: u8 where "MODE_DIVIDE = 3"
definition MODE_CYCLE :: u8 where "MODE_CYCLE = 4"
definition MODE_COUNT :: u8 where "MODE_COUNT = 5"

definition TOP_PERFORM :: u8 where "TOP_PERFORM = 0"
definition TOP_MENU :: u8 where "TOP_MENU = 1"
definition TOP_STATE_COUNT :: u8 where "TOP_STATE_COUNT = 2"

definition PAGE_GATE_CV :: u8 where "PAGE_GATE_CV = 0"
definition PAGE_TRIGGER_BEHAVIOR :: u8 where "PAGE_TRIGGER_BEHAVIOR = 1"
definition PAGE_TRIGGER_PULSE_LEN :: u8 where "PAGE_TRIGGER_PULSE_LEN = 2"
definition PAGE_TOGGLE_BEHAVIOR :: u8 where "PAGE_TOGGLE_BEHAVIOR = 3"
definition PAGE_DIVIDE_DIVISOR :: u8 where "PAGE_DIVIDE_DIVISOR = 4"
definition PAGE_CYCLE_PATTERN :: u8 where "PAGE_CYCLE_PATTERN = 5"
definition PAGE_CV_GLOBAL :: u8 where "PAGE_CV_GLOBAL = 6"
definition PAGE_MENU_TIMEOUT :: u8 where "PAGE_MENU_TIMEOUT = 7"
definition PAGE_COUNT :: u8 where "PAGE_COUNT = 8"

definition TRIGGER_PULSE_COUNT :: u8 where "TRIGGER_PULSE_COUNT = 4"
definition TRIGGER_EDGE_COUNT :: u8 where "TRIGGER_EDGE_COUNT = 3"
definition DIVIDE_DIVISOR_COUNT :: u8 where "DIVIDE_DIVISOR_COUNT = 4"
definition CYCLE_TEMPO_COUNT :: u8 where "CYCLE_TEMPO_COUNT = 5"
definition TOGGLE_EDGE_COUNT :: u8 where "TOGGLE_EDGE_COUNT = 2"
definition GATE_A_MODE_MANUAL :: u8 where "GATE_A_MODE_MANUAL = 1"
definition GATE_A_MODE_COUNT :: u8 where "GATE_A_MODE_COUNT = 2"
definition SETTINGS_FIELD_COUNT :: nat where "SETTINGS_FIELD_COUNT = 8"

datatype AppInitResult = APP_INIT_OK | APP_INIT_OK_DEFAULTS | APP_INIT_OK_FACTORY_RESET

record AppSettings =
  mode :: u8
  trigger_pulse_idx :: u8
  trigger_edge :: u8
  divide_divisor_idx :: u8
  cycle_tempo_idx :: u8
  toggle_edge :: u8
  gate_a_mode :: u8
  reserved :: u8

text \<open>
  The struct is packed, eight bytes in field order. The code reads and writes it through
  a \<open>uint8_t *\<close>; \<open>settings_bytes\<close> is that view, and \<open>settings_of_bytes\<close> is the
  struct whose bytes are the first eight elements of a list.
\<close>

definition APP_SETTINGS_SIZE :: nat where "APP_SETTINGS_SIZE = 8"

definition settings_bytes :: "AppSettings \<Rightarrow> u8 list" where
  "settings_bytes s =
     [mode s, trigger_pulse_idx s, trigger_edge s, divide_divisor_idx s,
      cycle_tempo_idx s, toggle_edge s, gate_a_mode s, reserved s]"

definition settings_of_bytes :: "u8 list \<Rightarrow> AppSettings" where
  "settings_of_bytes bs =
     \<lparr>mode = bs ! 0, trigger_pulse_idx = bs ! 1, trigger_edge = bs ! 2,
      divide_divisor_idx = bs ! 3, cycle_tempo_idx = bs ! 4, toggle_edge = bs ! 5,
      gate_a_mode = bs ! 6, reserved = bs ! 7\<rparr>"

definition SETTINGS_LIMITS :: "u8 list" where
  "SETTINGS_LIMITS =
     [MODE_COUNT, TRIGGER_PULSE_COUNT, TRIGGER_EDGE_COUNT, DIVIDE_DIVISOR_COUNT,
      CYCLE_TEMPO_COUNT, TOGGLE_EDGE_COUNT, GATE_A_MODE_COUNT, 0]"

definition calculate_checksum :: "AppSettings \<Rightarrow> u8" where
  "calculate_checksum s = fold (\<lambda>b checksum. checksum XOR b) (settings_bytes s) 0"

definition reset_feedback_tick :: "HalState \<Rightarrow> HalState" where
  "reset_feedback_tick h = sim_toggle_pin sig_out_pin h"

definition reset_complete_feedback :: "HalState \<Rightarrow> HalState" where
  "reset_complete_feedback h =
     sim_clear_pin sig_out_pin (util_delay_ms 500 (sim_set_pin sig_out_pin h))"

definition defaults_blink :: "HalState \<Rightarrow> HalState" where
  "defaults_blink h =
     util_delay_ms 100 (sim_clear_pin sig_out_pin
       (util_delay_ms 100 (sim_set_pin sig_out_pin h)))"

definition defaults_feedback :: "HalState \<Rightarrow> HalState" where
  "defaults_feedback h =
     (defaults_blink ^^ DEFAULTS_BLINK_COUNT)
       (util_delay_ms 200 ((defaults_blink ^^ DEFAULTS_BLINK_COUNT) h))"

definition app_init_get_defaults :: AppSettings where
  "app_init_get_defaults =
     \<lparr>mode = MODE_GATE, trigger_pulse_idx = 0, trigger_edge = 0, divide_divisor_idx = 0,
      cycle_tempo_idx = 0, toggle_edge = 0, gate_a_mode = 0, reserved = 0\<rparr>"

text \<open>
  The polling loop of \<open>app_init_check_factory_reset\<close>. The iteration counter is a
  \<open>uint16_t\<close> that the loop condition keeps below 80, so it is a \<open>nat\<close> here.
\<close>

function factory_reset_loop :: "u32 \<Rightarrow> u32 \<Rightarrow> nat \<Rightarrow> HalState \<Rightarrow> bool \<times> HalState" where
  "factory_reset_loop start_time last_blink iterations h =
     (if sim_millis h - start_time < APP_INIT_RESET_HOLD_MS
         \<and> iterations < APP_INIT_RESET_MAX_ITERATIONS
      then (let (h1, last_blink1) =
                  (if sim_millis h - last_blink \<ge> APP_INIT_RESET_BLINK_MS
                   then (let h' = reset_feedback_tick h in (h', sim_millis h'))
                   else (h, last_blink))
            in if sim_read_pin h1 button_a_pin \<noteq> 0 \<or> sim_read_pin h1 button_b_pin \<noteq> 0
               then (False, sim_clear_pin sig_out_pin h1)
               else factory_reset_loop start_time last_blink1 (iterations + 1)
                      (util_delay_ms APP_INIT_RESET_POLL_MS h1))
      else (True, reset_complete_feedback h))"
  by pat_completeness auto
termination
  by (relation "measure (\<lambda>(s, l, i, h). APP_INIT_RESET_MAX_ITERATIONS - i)") auto

definition app_init_check_factory_reset :: "HalState \<Rightarrow> bool \<times> HalState" where
  "app_init_check_factory_reset h =
     (let t1 = sim_millis h;
          h1 = util_delay_ms 10 h;
          t2 = sim_millis h1
      in if t2 \<le> t1 then (False, h1)
         else if sim_read_pin h1 button_a_pin \<noteq> 0 \<or> sim_read_pin h1 button_b_pin \<noteq> 0
         then (False, h1)
         else (let start_time = sim_millis h1
               in factory_reset_loop start_time start_time 0 h1))"

definition app_init_clear_eeprom :: "HalState \<Rightarrow> HalState" where
  "app_init_clear_eeprom h = sim_eeprom_write_word EEPROM_MAGIC_ADDR 0xFFFF h"

definition app_init_save_settings :: "AppSettings \<Rightarrow> HalState \<Rightarrow> HalState" where
  "app_init_save_settings s h =
     (let h1 = sim_eeprom_write_word EEPROM_MAGIC_ADDR EEPROM_MAGIC_VALUE h;
          h2 = sim_eeprom_write_byte EEPROM_SCHEMA_ADDR SETTINGS_SCHEMA_VERSION h1;
          h3 = fold (\<lambda>i. sim_eeprom_write_byte (EEPROM_SETTINGS_ADDR + of_nat i)
                             (settings_bytes s ! i))
                 [0..<APP_SETTINGS_SIZE] h2
      in sim_eeprom_write_byte EEPROM_CHECKSUM_ADDR (calculate_checksum s) h3)"

text \<open>The range check of level 4, over the rows (limit, field) in field order.\<close>

fun check_limits :: "(u8 \<times> u8) list \<Rightarrow> bool" where
  "check_limits [] = True"
| "check_limits ((limit, field) # rest) =
     (if limit > 0 \<and> field \<ge> limit then False else check_limits rest)"

text \<open>
  \<open>load_settings\<close> fills the caller's struct while it reads, so it returns the struct
  next to its verdict: unchanged when level 1 or 2 fails, the stored bytes otherwise.
\<close>

definition load_settings :: "HalState \<Rightarrow> AppSettings \<Rightarrow> bool \<times> AppSettings" where
  "load_settings h s =
     (let magic = sim_eeprom_read_word h EEPROM_MAGIC_ADDR
      in if magic \<noteq> EEPROM_MAGIC_VALUE then (False, s)
         else (let schema = sim_eeprom_read_byte h EEPROM_SCHEMA_ADDR
               in if schema \<noteq> SETTINGS_SCHEMA_VERSION then (False, s)
                  else (let s1 = settings_of_bytes
                                   (map (\<lambda>i. sim_eeprom_read_byte h
                                                (EEPROM_SETTINGS_ADDR + of_nat i))
                                      [0..<APP_SETTINGS_SIZE]);
                            stored_checksum = sim_eeprom_read_byte h EEPROM_CHECKSUM_ADDR;
                            calculated_checksum = calculate_checksum s1
                        in if stored_checksum \<noteq> calculated_checksum then (False, s1)
                           else if \<not> check_limits
                                       (take SETTINGS_FIELD_COUNT
                                          (zip SETTINGS_LIMITS (settings_bytes s1)))
                           then (False, s1)
                           else (True, s1))))"

definition write_failed_feedback :: "HalState \<Rightarrow> HalState" where
  "write_failed_feedback h =
     sim_clear_pin sig_out_pin
       (((\<lambda>h'. util_delay_ms 50 (sim_toggle_pin sig_out_pin h')) ^^ 10) h)"

definition app_init_run :: "AppSettings \<Rightarrow> HalState \<Rightarrow> AppInitResult \<times> AppSettings \<times> HalState" where
  "app_init_run s h =
     (let (reset, h1) = app_init_check_factory_reset h
      in if reset
         then (let h2 = app_init_clear_eeprom h1;
                   s1 = app_init_get_defaults;
                   h3 = app_init_save_settings s1 h2;
                   verify_magic = sim_eeprom_read_word h3 EEPROM_MAGIC_ADDR;
                   h4 = (if verify_magic \<noteq> EEPROM_MAGIC_VALUE
                         then write_failed_feedback h3 else h3)
               in (APP_INIT_OK_FACTORY_RESET, s1, h4))
         else (case load_settings h1 s of
                 (True, s1) \<Rightarrow> (APP_INIT_OK, s1, h1)
               | (False, s1) \<Rightarrow>
                   (APP_INIT_OK_DEFAULTS, app_init_get_defaults, defaults_feedback h1)))"

text \<open>
  Two notions of the spec, for the statements about the store. \<open>settings_in_range\<close>:
  each of the first seven fields is strictly below its upper bound (\<open>reserved\<close> has
  none). \<open>stored_settings\<close>: the record whose eight bytes are the EEPROM bytes from
  \<open>EEPROM_SETTINGS_ADDR\<close> on.
\<close>

definition settings_in_range :: "AppSettings \<Rightarrow> bool" where
  "settings_in_range s =
     (mode s < MODE_COUNT \<and> trigger_pulse_idx s < TRIGGER_PULSE_COUNT
      \<and> trigger_edge s < TRIGGER_EDGE_COUNT \<and> divide_divisor_idx s < DIVIDE_DIVISOR_COUNT
      \<and> cycle_tempo_idx s < CYCLE_TEMPO_COUNT \<and> toggle_edge s < TOGGLE_EDGE_COUNT
      \<and> gate_a_mode s < GATE_A_MODE_COUNT)"

definition stored_settings :: "HalState \<Rightarrow> AppSettings" where
  "stored_settings h =
     \<lparr>mode = sim_eeprom_read_byte h 3, trigger_pulse_idx = sim_eeprom_read_byte h 4,
      trigger_edge = sim_eeprom_read_byte h 5, divide_divisor_idx = sim_eeprom_read_byte h 6,
      cycle_tempo_idx = sim_eeprom_read_byte h 7, toggle_edge = sim_eeprom_read_byte h 8,
      gate_a_mode = sim_eeprom_read_byte h 9, reserved = sim_eeprom_read_byte h 10\<rparr>"

section \<open>Coordinator (core/coordinator.h, coordinator.c)\<close>

definition MENU_TIMEOUT_MS :: u32 where "MENU_TIMEOUT_MS = 60000"
definition CV_ADC_CHANNEL :: u8 where "CV_ADC_CHANNEL = 3"

text \<open>
  The addresses of the six constant tables of the coordinator: the values that the
  table pointers of its three FSM instances can hold.
\<close>

datatype StateTable = Top_states | Mode_states | Menu_states
datatype TransitionTable = Top_transitions | Mode_transitions | Menu_transitions

text \<open>
  \<open>ModeContext\<close> is a union whose layout is given in modes/mode_handlers.h; the
  functions that read and write it, mode_handlers.c, are not among the sources. The
  context is therefore a value of a type \<open>'ctx\<close>, and the two handler functions that the
  coordinator calls are parameters, collected in \<open>ModeHandlers\<close>:
  \<open>mode_handler_init mode ctx settings\<close> returns the new context, and
  \<open>mode_handler_process mode ctx input output hal\<close> returns the new context and
  the new value of \<open>*output\<close> (the handlers read the time from the HAL).
\<close>

record 'ctx ModeHandlers =
  mode_handler_init :: "u8 \<Rightarrow> 'ctx \<Rightarrow> AppSettings option \<Rightarrow> 'ctx"
  mode_handler_process :: "u8 \<Rightarrow> 'ctx \<Rightarrow> bool \<Rightarrow> bool \<Rightarrow> HalState \<Rightarrow> 'ctx \<times> bool"

text \<open>
  The coordinator holds a pointer to the settings record, which the caller owns and
  does not touch while the coordinator runs: the field \<open>settings\<close> is the record the
  pointer points to, \<open>None\<close> for a NULL pointer. The field \<open>cv_input\<close> of the struct is
  \<open>cv_input_c\<close> here.
\<close>

record 'ctx Coordinator =
  top_fsm :: "(StateTable, TransitionTable) FSM"
  mode_fsm :: "(StateTable, TransitionTable) FSM"
  menu_fsm :: "(StateTable, TransitionTable) FSM"
  events :: EventProcessor
  cv_input_c :: CVInput
  menu_entry_mode :: u8
  menu_enter_time :: u32
  last_activity :: u32
  settings :: "AppSettings option"
  mode_ctx :: 'ctx
  output_state :: bool

text \<open>
  The global state that the action functions work on: the coordinator, the hardware
  behind \<open>p_hal\<close>, and whether the file-level pointer \<open>g_coord\<close> points to the
  coordinator (\<open>True\<close>) or is NULL.
\<close>

record 'ctx World =
  g_coord :: bool
  coord :: "'ctx Coordinator"
  hal :: HalState

definition top_fsm_ptr :: "('ctx World, StateTable, TransitionTable) fsm_ptr" where
  "top_fsm_ptr =
     \<lparr>fsm_get = (\<lambda>w. top_fsm (coord w)),
      fsm_put = (\<lambda>f w. w\<lparr>coord := (coord w)\<lparr>top_fsm := f\<rparr>\<rparr>)\<rparr>"

definition mode_fsm_ptr :: "('ctx World, StateTable, TransitionTable) fsm_ptr" where
  "mode_fsm_ptr =
     \<lparr>fsm_get = (\<lambda>w. mode_fsm (coord w)),
      fsm_put = (\<lambda>f w. w\<lparr>coord := (coord w)\<lparr>mode_fsm := f\<rparr>\<rparr>)\<rparr>"

definition menu_fsm_ptr :: "('ctx World, StateTable, TransitionTable) fsm_ptr" where
  "menu_fsm_ptr =
     \<lparr>fsm_get = (\<lambda>w. menu_fsm (coord w)),
      fsm_put = (\<lambda>f w. w\<lparr>coord := (coord w)\<lparr>menu_fsm := f\<rparr>\<rparr>)\<rparr>"

definition mode_to_start_page :: "u8 \<Rightarrow> u8" where
  "mode_to_start_page m =
     (if m = MODE_GATE then PAGE_GATE_CV
      else if m = MODE_TRIGGER then PAGE_TRIGGER_BEHAVIOR
      else if m = MODE_TOGGLE then PAGE_TOGGLE_BEHAVIOR
      else if m = MODE_DIVIDE then PAGE_DIVIDE_DIVISOR
      else if m = MODE_CYCLE then PAGE_CYCLE_PATTERN
      else PAGE_GATE_CV)"

text \<open>State tables: every callback is NULL.\<close>

definition state_row :: "u8 \<Rightarrow> 'g State" where
  "state_row i = \<lparr>id_state = i, on_enter = None, on_exit = None, on_update = None\<rparr>"

definition top_states :: "'g State list" where
  "top_states = [state_row TOP_PERFORM, state_row TOP_MENU]"

definition mode_states :: "'g State list" where
  "mode_states =
     [state_row MODE_GATE, state_row MODE_TRIGGER, state_row MODE_TOGGLE,
      state_row MODE_DIVIDE, state_row MODE_CYCLE]"

definition menu_states :: "'g State list" where
  "menu_states =
     [state_row PAGE_GATE_CV, state_row PAGE_TRIGGER_BEHAVIOR, state_row PAGE_TRIGGER_PULSE_LEN,
      state_row PAGE_TOGGLE_BEHAVIOR, state_row PAGE_DIVIDE_DIVISOR, state_row PAGE_CYCLE_PATTERN,
      state_row PAGE_CV_GLOBAL, state_row PAGE_MENU_TIMEOUT]"

definition state_tables :: "StateTable \<Rightarrow> 'g State list" where
  "state_tables p =
     (case p of Top_states \<Rightarrow> top_states | Mode_states \<Rightarrow> mode_states
      | Menu_states \<Rightarrow> menu_states)"

text \<open>
  Action functions. In C the sum \<open>current + 1\<close> is computed in \<open>int\<close>, so it does not
  wrap at 255; the model computes it on \<open>nat\<close>.
\<close>

definition action_enter_menu :: "'ctx World \<Rightarrow> 'ctx World" where
  "action_enter_menu w =
     (if \<not> g_coord w then w
      else (let c = coord w;
                t = sim_millis (hal w);
                c1 = c\<lparr>menu_entry_mode := fsm_get_state (mode_fsm c),
                       menu_enter_time := t, last_activity := t\<rparr>;
                start_page = mode_to_start_page (menu_entry_mode c1)
            in fsm_set_state state_tables menu_fsm_ptr start_page (w\<lparr>coord := c1\<rparr>)))"

definition action_exit_menu :: "'ctx World \<Rightarrow> 'ctx World" where
  "action_exit_menu w =
     (if \<not> g_coord w then w
      else (case settings (coord w) of
              None \<Rightarrow> w
            | Some s \<Rightarrow>
                (let s1 = s\<lparr>mode := fsm_get_state (mode_fsm (coord w))\<rparr>
                 in w\<lparr>coord := (coord w)\<lparr>settings := Some s1\<rparr>,
                      hal := app_init_save_settings s1 (hal w)\<rparr>)))"

definition action_next_mode :: "'ctx ModeHandlers \<Rightarrow> 'ctx World \<Rightarrow> 'ctx World" where
  "action_next_mode mh w =
     (if \<not> g_coord w then w
      else (let current = fsm_get_state (mode_fsm (coord w));
                next = (of_nat ((unat current + 1) mod unat MODE_COUNT) :: u8);
                w1 = fsm_set_state state_tables mode_fsm_ptr next w;
                c1 = coord w1;
                c2 = c1\<lparr>mode_ctx := mode_handler_init mh next (mode_ctx c1) (settings c1)\<rparr>
            in w1\<lparr>coord := c2\<lparr>last_activity := sim_millis (hal w1)\<rparr>\<rparr>))"

definition action_next_page :: "'ctx World \<Rightarrow> 'ctx World" where
  "action_next_page w =
     (if \<not> g_coord w then w
      else (let current = fsm_get_state (menu_fsm (coord w));
                next = (of_nat ((unat current + 1) mod unat PAGE_COUNT) :: u8);
                w1 = fsm_set_state state_tables menu_fsm_ptr next w
            in w1\<lparr>coord := (coord w1)\<lparr>last_activity := sim_millis (hal w1)\<rparr>\<rparr>))"

definition cycle_field :: "u8 \<Rightarrow> u8 \<Rightarrow> u8" where
  "cycle_field v n = of_nat ((unat v + 1) mod unat n)"

definition action_cycle_value :: "'ctx ModeHandlers \<Rightarrow> 'ctx World \<Rightarrow> 'ctx World" where
  "action_cycle_value mh w =
     (if \<not> g_coord w then w
      else (case settings (coord w) of
              None \<Rightarrow> w
            | Some s \<Rightarrow>
                (let page = fsm_get_state (menu_fsm (coord w));
                     current_mode = fsm_get_state (mode_fsm (coord w));
                     (s1, reinit_needed) =
                        (if page = PAGE_GATE_CV
                         then (s\<lparr>gate_a_mode := cycle_field (gate_a_mode s) GATE_A_MODE_COUNT\<rparr>,
                               current_mode = MODE_GATE)
                         else if page = PAGE_TRIGGER_BEHAVIOR
                         then (s\<lparr>trigger_edge := cycle_field (trigger_edge s) TRIGGER_EDGE_COUNT\<rparr>,
                               current_mode = MODE_TRIGGER)
                         else if page = PAGE_TRIGGER_PULSE_LEN
                         then (s\<lparr>trigger_pulse_idx :=
                                    cycle_field (trigger_pulse_idx s) TRIGGER_PULSE_COUNT\<rparr>,
                               current_mode = MODE_TRIGGER)
                         else if page = PAGE_TOGGLE_BEHAVIOR
                         then (s\<lparr>toggle_edge := cycle_field (toggle_edge s) TOGGLE_EDGE_COUNT\<rparr>,
                               current_mode = MODE_TOGGLE)
                         else if page = PAGE_DIVIDE_DIVISOR
                         then (s\<lparr>divide_divisor_idx :=
                                    cycle_field (divide_divisor_idx s) DIVIDE_DIVISOR_COUNT\<rparr>,
                               current_mode = MODE_DIVIDE)
                         else if page = PAGE_CYCLE_PATTERN
                         then (s\<lparr>cycle_tempo_idx :=
                                    cycle_field (cycle_tempo_idx s) CYCLE_TEMPO_COUNT\<rparr>,
                               current_mode = MODE_CYCLE)
                         else (s, False));
                     c1 = (coord w)\<lparr>settings := Some s1\<rparr>;
                     c2 = (if reinit_needed
                           then c1\<lparr>mode_ctx := mode_handler_init mh current_mode (mode_ctx c1)
                                                    (settings c1)\<rparr>
                           else c1)
                 in w\<lparr>coord := c2\<lparr>last_activity := sim_millis (hal w)\<rparr>\<rparr>)))"

text \<open>Transition tables, with the event of each row as its enumerator value.\<close>

definition top_transitions :: "'ctx World Transition list" where
  "top_transitions =
     [\<lparr>from_state = TOP_PERFORM, event = event_id EVT_MENU_TOGGLE, to_state = TOP_MENU,
       action = Some action_enter_menu\<rparr>,
      \<lparr>from_state = TOP_MENU, event = event_id EVT_MENU_TOGGLE, to_state = TOP_PERFORM,
       action = Some action_exit_menu\<rparr>,
      \<lparr>from_state = TOP_MENU, event = event_id EVT_TIMEOUT, to_state = TOP_PERFORM,
       action = Some action_exit_menu\<rparr>]"

definition mode_transitions :: "'ctx ModeHandlers \<Rightarrow> 'ctx World Transition list" where
  "mode_transitions mh =
     [\<lparr>from_state = FSM_ANY_STATE, event = event_id EVT_MODE_NEXT,
       to_state = FSM_NO_TRANSITION, action = Some (action_next_mode mh)\<rparr>]"

definition menu_transitions :: "'ctx ModeHandlers \<Rightarrow> 'ctx World Transition list" where
  "menu_transitions mh =
     [\<lparr>from_state = FSM_ANY_STATE, event = event_id EVT_A_TAP,
       to_state = FSM_NO_TRANSITION, action = Some action_next_page\<rparr>,
      \<lparr>from_state = FSM_ANY_STATE, event = event_id EVT_B_TAP,
       to_state = FSM_NO_TRANSITION, action = Some (action_cycle_value mh)\<rparr>]"

definition transition_tables ::
  "'ctx ModeHandlers \<Rightarrow> TransitionTable \<Rightarrow> 'ctx World Transition list" where
  "transition_tables mh p =
     (case p of Top_transitions \<Rightarrow> top_transitions
      | Mode_transitions \<Rightarrow> mode_transitions mh
      | Menu_transitions \<Rightarrow> menu_transitions mh)"

text \<open>
  \<open>coordinator_init\<close> overwrites every field of the struct it is given; the mode
  context goes through \<open>mode_handler_init\<close>.
\<close>

definition coordinator_init ::
  "'ctx ModeHandlers \<Rightarrow> 'ctx Coordinator \<Rightarrow> AppSettings option \<Rightarrow> 'ctx Coordinator" where
  "coordinator_init mh c st =
     c\<lparr>settings := st, menu_entry_mode := MODE_GATE, menu_enter_time := 0,
       last_activity := 0, output_state := False,
       events := event_processor_init,
       cv_input_c := cv_input_init,
       mode_ctx := mode_handler_init mh MODE_GATE (mode_ctx c) st,
       top_fsm := fsm_init (Some Top_states) TOP_STATE_COUNT (Some Top_transitions) 3
                    TOP_PERFORM,
       mode_fsm := fsm_init (Some Mode_states) MODE_COUNT (Some Mode_transitions) 1 MODE_GATE,
       menu_fsm := fsm_init (Some Menu_states) PAGE_COUNT (Some Menu_transitions) 2
                     PAGE_GATE_CV\<rparr>"

definition coordinator_start :: "'ctx World \<Rightarrow> 'ctx World" where
  "coordinator_start w =
     (let w1 = fsm_start state_tables top_fsm_ptr w;
          w2 = fsm_start state_tables mode_fsm_ptr w1;
          w3 = fsm_start state_tables menu_fsm_ptr w2
      in w3\<lparr>coord := (coord w3)\<lparr>last_activity := sim_millis (hal w3)\<rparr>\<rparr>)"

text \<open>
  \<open>coordinator_update\<close> is one C function. The model keeps its four blocks as four
  definitions in source order: reading the inputs and running the event processor
  (\<open>coordinator_sample\<close>, which returns the CV level and the event next to the
  state), routing the event to the FSMs (\<open>coordinator_route\<close>), the menu timeout
  (\<open>coordinator_timeout\<close>) and the mode handler (\<open>coordinator_run_mode\<close>).
\<close>

definition coordinator_sample :: "'ctx World \<Rightarrow> bool \<times> Event \<times> 'ctx World" where
  "coordinator_sample w =
     (let cv_adc = sim_adc_read (hal w) CV_ADC_CHANNEL;
          (cv_state, cvi) = cv_input_update (cv_input_c (coord w)) cv_adc;
          w1 = w\<lparr>coord := (coord w)\<lparr>cv_input_c := cvi\<rparr>\<rparr>;
          inp = \<lparr>button_a = (sim_read_pin (hal w1) button_a_pin = 0),
                 button_b = (sim_read_pin (hal w1) button_b_pin = 0),
                 cv_in = cv_state,
                 current_time = sim_millis (hal w1)\<rparr>;
          (ev, ep) = event_processor_update (events (coord w1)) inp
      in (cv_state, ev, w1\<lparr>coord := (coord w1)\<lparr>events := ep\<rparr>\<rparr>))"

definition coordinator_route :: "'ctx ModeHandlers \<Rightarrow> Event \<Rightarrow> 'ctx World \<Rightarrow> 'ctx World" where
  "coordinator_route mh ev w =
     (if ev \<noteq> EVT_NONE
      then (let top_state = fsm_get_state (top_fsm (coord w));
                w1 = (if top_state = TOP_MENU
                      then w\<lparr>coord := (coord w)\<lparr>last_activity := sim_millis (hal w)\<rparr>\<rparr>
                      else w);
                (handled, w2) =
                   fsm_process_event state_tables (transition_tables mh) top_fsm_ptr
                     (event_id ev) w1
            in if \<not> handled
               then (if top_state = TOP_PERFORM
                     then snd (fsm_process_event state_tables (transition_tables mh)
                                 mode_fsm_ptr (event_id ev) w2)
                     else snd (fsm_process_event state_tables (transition_tables mh)
                                 menu_fsm_ptr (event_id ev) w2))
               else w2)
      else w)"

definition coordinator_timeout :: "'ctx ModeHandlers \<Rightarrow> 'ctx World \<Rightarrow> 'ctx World" where
  "coordinator_timeout mh w =
     (if fsm_get_state (top_fsm (coord w)) = TOP_MENU
      then (let elapsed = sim_millis (hal w) - last_activity (coord w)
            in if elapsed \<ge> MENU_TIMEOUT_MS
               then snd (fsm_process_event state_tables (transition_tables mh)
                           top_fsm_ptr (event_id EVT_TIMEOUT) w)
               else w)
      else w)"

definition coordinator_run_mode :: "'ctx ModeHandlers \<Rightarrow> bool \<Rightarrow> 'ctx World \<Rightarrow> 'ctx World" where
  "coordinator_run_mode mh cv_state w =
     (let cur_mode = fsm_get_state (mode_fsm (coord w));
          input_state =
            (if fsm_get_state (top_fsm (coord w)) = TOP_PERFORM
             then (let b_triggers = event_processor_b_pressed (events (coord w))
                                    \<and> \<not> event_processor_a_pressed (events (coord w));
                       i1 = (cv_state \<or> b_triggers)
                   in if cur_mode = MODE_GATE
                         \<and> (case settings (coord w) of None \<Rightarrow> False
                             | Some s \<Rightarrow> gate_a_mode s = GATE_A_MODE_MANUAL)
                      then i1 \<or> event_processor_a_pressed (events (coord w))
                      else i1)
             else cv_state);
          (ctx', out') = mode_handler_process mh cur_mode (mode_ctx (coord w)) input_state
                           (output_state (coord w)) (hal w)
      in w\<lparr>coord := (coord w)\<lparr>mode_ctx := ctx', output_state := out'\<rparr>\<rparr>)"

definition coordinator_update :: "'ctx ModeHandlers \<Rightarrow> 'ctx World \<Rightarrow> 'ctx World" where
  "coordinator_update mh w0 =
     (let w = w0\<lparr>g_coord := True\<rparr>;
          (cv_state, ev, w1) = coordinator_sample w;
          w2 = coordinator_route mh ev w1;
          w3 = coordinator_timeout mh w2;
          w4 = coordinator_run_mode mh cv_state w3
      in w4\<lparr>g_coord := False\<rparr>)"

definition coordinator_get_top_state :: "'ctx Coordinator \<Rightarrow> u8" where
  "coordinator_get_top_state c = fsm_get_state (top_fsm c)"

definition coordinator_get_mode :: "'ctx Coordinator \<Rightarrow> u8" where
  "coordinator_get_mode c = fsm_get_state (mode_fsm c)"


definition coordinator_in_menu :: "'ctx Coordinator \<Rightarrow> bool" where
  "coordinator_in_menu c = (fsm_get_state (top_fsm c) = TOP_MENU)"

definition coordinator_get_page :: "'ctx Coordinator \<Rightarrow> u8" where
  "coordinator_get_page c = fsm_get_state (menu_fsm c)"

definition coordinator_get_output :: "'ctx Coordinator \<Rightarrow> bool" where
  "coordinator_get_output c = output_state c"

section \<open>Example states\<close>

text \<open>
  A hardware state for the closed examples below: the clock at \<open>t\<close>, button A and
  button B pressed or not (the pins are active-low), the ADC value \<open>cv\<close>, an erased
  EEPROM and a running timer.
\<close>

definition hal_at :: "u32 \<Rightarrow> bool \<Rightarrow> bool \<Rightarrow> u8 \<Rightarrow> HalState" where
  "hal_at t a b cv =
     \<lparr>pin_states = (\<lambda>p. if p = button_a_pin then (if a then 0 else 1)
                          else if p = button_b_pin then (if b then 0 else 1) else 0),
      sim_eeprom = (\<lambda>_. 0xFF),
      sim_time_ms = t,
      sim_cv_voltage = cv,
      timer_running = True\<rparr>"

text \<open>
  Modelled from the spec: the gate handler, "output \<open>\<leftarrow>\<close> input; idempotent; no
  history" (spec 4.6), with the boolean of \<open>GateContext\<close> as the context. It stands for
  the mode handlers, which are not among the sources, where a closed example needs one;
  it is used for every mode.
\<close>

definition gate_handlers :: "bool ModeHandlers" where
  "gate_handlers =
     \<lparr>mode_handler_init = (\<lambda>m ctx st. False),
      mode_handler_process = (\<lambda>m ctx inp out h. (inp, inp))\<rparr>"

text \<open>
  The coordinator as the startup code leaves it on hardware state \<open>h\<close>:
  \<open>coordinator_init\<close> on a zeroed struct with the default settings, then
  \<open>coordinator_start\<close>.
\<close>

definition zero_fsm :: "(StateTable, TransitionTable) FSM" where
  "zero_fsm =
     \<lparr>states = None, transitions = None, num_states = 0, num_transitions = 0,
      current_state = 0, initial_state = 0, active = False\<rparr>"

definition zero_coordinator :: "bool Coordinator" where
  "zero_coordinator =
     \<lparr>top_fsm = zero_fsm, mode_fsm = zero_fsm, menu_fsm = zero_fsm,
      events = \<lparr>status = 0, ext_status = 0, a_press_time = 0, b_press_time = 0\<rparr>,
      cv_input_c = \<lparr>high_threshold = 0, low_threshold = 0, last_adc_value = 0,
                     current_state = False\<rparr>,
      menu_entry_mode = 0, menu_enter_time = 0, last_activity = 0,
      settings = None, mode_ctx = False, output_state = False\<rparr>"

definition boot_world :: "HalState \<Rightarrow> bool World" where
  "boot_world h =
     coordinator_start
       \<lparr>g_coord = False,
        coord = coordinator_init gate_handlers zero_coordinator (Some app_init_get_defaults),
        hal = h\<rparr>"

text \<open>
  The coordinator in the menu with button A held alone: the menu was entered from
  gate mode (page \<open>PAGE_GATE_CV\<close>), both buttons were released, and A has been
  pressed since 2100 ms (scenario 2 of the spec). \<open>menu_hold_world t\<close> is the state
  before the tick at time \<open>t\<close>, with the hold not yet latched.
\<close>

definition menu_hold_world :: "u32 \<Rightarrow> bool World" where
  "menu_hold_world t =
     (let w = boot_world (hal_at t True False 0);
          c = coord w
      in w\<lparr>coord := c\<lparr>top_fsm := (top_fsm c)\<lparr>current_state := TOP_MENU\<rparr>,
                         events := \<lparr>status = EP_A_PRESSED OR EP_A_LAST, ext_status = 0,
                                    a_press_time = 2100, b_press_time = 200\<rparr>,
                         menu_enter_time := 700,
                         last_activity := 2100\<rparr>\<rparr>)"






section \<open>Properties: status words\<close>

text \<open>
  A status word is read bit by bit: every mask of the firmware is a single bit, so the
  tests and updates of the macros are statements about \<open>bit s k\<close>.
\<close>

lemma bit_u8_lt: "bit (s::u8) n \<Longrightarrow> n < 8"
  using bit_imp_le_length [of s n] by simp

lemma and_eq_0_bits: "((x::u8) AND m = 0) = (\<forall>n. \<not> (bit x n \<and> bit m n))"
  by (auto simp add: bit_eq_iff [where ?'a = u8] bit_simps dest: bit_u8_lt)

lemma bit_and_not_u8: "bit ((x::u8) AND NOT m) n = (bit x n \<and> \<not> bit m n)"
  by (auto simp add: bit_simps dest: bit_u8_lt)

lemma STATUS_ANY_bit: "STATUS_ANY s m = (\<exists>n. bit s n \<and> bit m n)"
  unfolding STATUS_ANY_def by (simp add: and_eq_0_bits)

lemma STATUS_NONE_bit: "STATUS_NONE s m = (\<forall>n. \<not> (bit s n \<and> bit m n))"
  unfolding STATUS_NONE_def by (simp add: and_eq_0_bits)

lemma bit_STATUS_SET: "bit (STATUS_SET s m) n = (bit s n \<or> bit m n)"
  by (simp add: STATUS_SET_def bit_or_iff)

lemma bit_STATUS_CLR: "bit (STATUS_CLR s m) n = (bit s n \<and> \<not> bit m n)"
  by (simp add: STATUS_CLR_def bit_and_not_u8)

lemma bit_STATUS_PUT:
  "bit (STATUS_PUT s m v) n = (if v then bit s n \<or> bit m n else bit s n \<and> \<not> bit m n)"
  by (simp add: STATUS_PUT_def bit_STATUS_SET bit_STATUS_CLR)

lemma bit_BTN:
  "bit BTN_RAW n = (n = 0)" "bit BTN_PRESSED n = (n = 1)" "bit BTN_LAST n = (n = 2)"
  "bit BTN_RISE n = (n = 3)" "bit BTN_FALL n = (n = 4)" "bit BTN_CONFIG n = (n = 5)"
  "bit BTN_COUNTING n = (n = 6)"
  by (auto simp add: BTN_RAW_def BTN_PRESSED_def BTN_LAST_def BTN_RISE_def BTN_FALL_def
      BTN_CONFIG_def BTN_COUNTING_def bit_simps simp del: push_bit_of_1)

lemma bit_EP:
  "bit EP_A_PRESSED n = (n = 0)" "bit EP_A_LAST n = (n = 1)" "bit EP_A_HOLD n = (n = 2)"
  "bit EP_B_PRESSED n = (n = 3)" "bit EP_B_LAST n = (n = 4)" "bit EP_B_HOLD n = (n = 5)"
  "bit EP_CV_STATE n = (n = 6)" "bit EP_CV_LAST n = (n = 7)"
  "bit EP_COMPOUND_FIRED n = (n = 0)" "bit EP_B_TOUCHED_DURING_A n = (n = 1)"
  by (auto simp add: EP_A_PRESSED_def EP_A_LAST_def EP_A_HOLD_def EP_B_PRESSED_def
      EP_B_LAST_def EP_B_HOLD_def EP_CV_STATE_def EP_CV_LAST_def EP_COMPOUND_FIRED_def
      EP_B_TOUCHED_DURING_A_def bit_simps simp del: push_bit_of_1)

lemma bit_CVOUT:
  "bit CVOUT_STATE n = (n = 0)" "bit CVOUT_PULSE n = (n = 1)" "bit CVOUT_LAST_IN n = (n = 2)"
  by (auto simp add: CVOUT_STATE_def CVOUT_PULSE_def CVOUT_LAST_IN_def bit_simps
      simp del: push_bit_of_1)


lemma STATUS_ANY_one: "(\<And>n. bit m n = (n = k)) \<Longrightarrow> STATUS_ANY s m = bit s k"
  by (simp add: STATUS_ANY_bit)

lemma STATUS_NONE_one: "(\<And>n. bit m n = (n = k)) \<Longrightarrow> STATUS_NONE s m = (\<not> bit s k)"
  by (auto simp add: STATUS_NONE_bit)

lemma and_eq_0_one: "(\<And>n. bit m n = (n = k)) \<Longrightarrow> ((s::u8) AND m = 0) = (\<not> bit s k)"
  by (auto simp add: and_eq_0_bits)

lemmas bit_masks = bit_BTN bit_EP bit_CVOUT

lemmas status_bits =
  bit_masks [THEN STATUS_ANY_one] bit_masks [THEN STATUS_NONE_one] bit_masks [THEN and_eq_0_one]
  bit_STATUS_SET bit_STATUS_CLR bit_STATUS_PUT bit_and_not_u8 bit_or_iff bit_masks


section \<open>Properties: CV hysteresis\<close>

lemma cv_input_update_level:
  "fst (cv_input_update cv x) =
     (if CVInput.current_state cv then \<not> x < low_threshold cv else high_threshold cv < x)"
  by (simp add: cv_input_update_def Let_def)

lemma cv_input_update_state:
  "CVInput.current_state (snd (cv_input_update cv x)) = fst (cv_input_update cv x)"
  by (simp add: cv_input_update_def Let_def)

lemma cv_input_update_thresholds:
  "high_threshold (snd (cv_input_update cv x)) = high_threshold cv"
  "low_threshold (snd (cv_input_update cv x)) = low_threshold cv"
  "last_adc_value (snd (cv_input_update cv x)) = x"
  by (simp_all add: cv_input_update_def Let_def)

lemma cv_input_scenario:
  "cv_input_run cv_input_init [100, 120, 128, 129, 80, 78, 77, 76, 128]
     = [False, False, False, True, True, True, True, False, False]"
  by (simp add: cv_input_update_def cv_input_init_def cv_input_init_custom_def
      CV_DEFAULT_HIGH_THRESHOLD_def CV_DEFAULT_LOW_THRESHOLD_def)

text \<open>
  Claim C6. For every CV-hysteresis state and every ADC sample: a low level becomes high
  exactly when the sample is strictly greater than the high threshold, a high level
  becomes low exactly when the sample is strictly less than the low threshold, and the
  level is retained otherwise; the thresholds are not changed by the update. The
  equation holds for every pair of thresholds, in particular whenever the low threshold
  is below the high one. Starting low with the default thresholds (77, 128), the samples
  100, 120, 128, 129, 80, 78, 77, 76, 128 give the levels low, low, low, high, high, high,
  high, low, low.
\<close>

theorem cv_hysteresis:
  "fst (cv_input_update cv x) =
     (if CVInput.current_state cv then \<not> x < low_threshold cv else high_threshold cv < x)
   \<and> CVInput.current_state (snd (cv_input_update cv x)) = fst (cv_input_update cv x)
   \<and> high_threshold (snd (cv_input_update cv x)) = high_threshold cv
   \<and> low_threshold (snd (cv_input_update cv x)) = low_threshold cv
   \<and> cv_input_run cv_input_init [100, 120, 128, 129, 80, 78, 77, 76, 128]
       = [False, False, False, True, True, True, True, False, False]"
  using cv_input_update_level [of cv x] cv_input_update_state [of cv x]
    cv_input_update_thresholds(1,2) [of cv x] cv_input_scenario
  by blast

section \<open>Properties: debounced button\<close>

lemma button_sample_bits:
  "bit (Button.status (button_sample h b)) n =
     (if n = 0 then sim_read_pin h (Button.pin b) = 0
      else if n = 3 \<or> n = 4 then False else bit (Button.status b) n)"
  by (simp add: button_sample_def Let_def status_bits)

lemma button_sample_fields:
  "last_rise_time (button_sample h b) = last_rise_time b"
  "last_fall_time (button_sample h b) = last_fall_time b"
  "Button.pin (button_sample h b) = Button.pin b"
  by (simp_all add: button_sample_def Let_def)

lemma rising_edge_result:
  "fst (button_has_rising_edge h b) =
     (STATUS_ANY (Button.status b) BTN_RAW \<and> STATUS_NONE (Button.status b) BTN_LAST
      \<and> EDGE_DEBOUNCE_MS < sim_millis h - last_rise_time b)"
  by (auto simp add: button_has_rising_edge_def)

lemma rising_edge_button:
  "snd (button_has_rising_edge h b) =
     (if fst (button_has_rising_edge h b) then b\<lparr>last_rise_time := sim_millis h\<rparr> else b)"
  by (simp add: button_has_rising_edge_def)

lemma falling_edge_result:
  "fst (button_has_falling_edge h b) =
     (STATUS_NONE (Button.status b) BTN_RAW \<and> STATUS_ANY (Button.status b) BTN_LAST
      \<and> EDGE_DEBOUNCE_MS < sim_millis h - last_fall_time b)"
  by (auto simp add: button_has_falling_edge_def)

lemma falling_edge_button:
  "snd (button_has_falling_edge h b) =
     (if fst (button_has_falling_edge h b) then b\<lparr>last_fall_time := sim_millis h\<rparr> else b)"
  by (simp add: button_has_falling_edge_def)

lemma button_rise_step_bits:
  "bit (Button.status (button_rise_step h b)) n =
     (if fst (button_has_rising_edge h b) \<and> (n = 3 \<or> n = 1) then True
      else bit (Button.status b) n)"
  by (simp add: button_rise_step_def split_beta rising_edge_button status_bits)

lemma button_rise_step_fields:
  "last_rise_time (button_rise_step h b) =
     (if fst (button_has_rising_edge h b) then sim_millis h else last_rise_time b)"
  "last_fall_time (button_rise_step h b) = last_fall_time b"
  by (simp_all add: button_rise_step_def split_beta rising_edge_button)

lemma button_fall_step_bits:
  "bit (Button.status (button_fall_step h b)) n =
     (if fst (button_has_falling_edge h b) \<and> (n = 4 \<or> n = 1) then n = 4
      else bit (Button.status b) n)"
  by (auto simp add: button_fall_step_def split_beta falling_edge_button status_bits)

lemma button_fall_step_fields:
  "last_rise_time (button_fall_step h b) = last_rise_time b"
  "last_fall_time (button_fall_step h b) =
     (if fst (button_has_falling_edge h b) then sim_millis h else last_fall_time b)"
  by (simp_all add: button_fall_step_def split_beta falling_edge_button)

lemma config_action_status:
  "n \<noteq> 6 \<Longrightarrow>
   bit (Button.status (snd (button_detect_config_action h b))) n = bit (Button.status b) n"
  by (simp add: button_detect_config_action_def Let_def split_beta status_bits)

lemma config_action_rise_time:
  "last_rise_time (snd (button_detect_config_action h b)) = last_rise_time b"
  "last_fall_time (snd (button_detect_config_action h b)) = last_fall_time b"
  by (simp_all add: button_detect_config_action_def Let_def split_beta)

lemma button_config_step_bits:
  "n \<noteq> 6 \<Longrightarrow> n \<noteq> 5 \<Longrightarrow>
   bit (Button.status (button_config_step h b)) n = bit (Button.status b) n"
  by (simp add: button_config_step_def split_beta config_action_status status_bits)

lemma button_config_step_fields:
  "last_rise_time (button_config_step h b) = last_rise_time b"
  "last_fall_time (button_config_step h b) = last_fall_time b"
  by (simp_all add: button_config_step_def split_beta config_action_rise_time)

lemma button_store_last_bits:
  "bit (Button.status (button_store_last b)) n =
     (if n = 2 then bit (Button.status b) 1 else bit (Button.status b) n)"
  by (simp add: button_store_last_def status_bits)

lemma button_store_last_fields:
  "last_rise_time (button_store_last b) = last_rise_time b"
  "last_fall_time (button_store_last b) = last_fall_time b"
  by (simp_all add: button_store_last_def)

lemma rise_after_sample:
  "fst (button_has_rising_edge h (button_sample h b)) =
     (sim_read_pin h (Button.pin b) = 0 \<and> STATUS_NONE (Button.status b) BTN_LAST
      \<and> EDGE_DEBOUNCE_MS < sim_millis h - last_rise_time b)"
  by (simp add: rising_edge_result status_bits button_sample_bits button_sample_fields)

lemma fall_after_rise:
  "fst (button_has_falling_edge h (button_rise_step h (button_sample h b))) =
     (sim_read_pin h (Button.pin b) \<noteq> 0 \<and> STATUS_ANY (Button.status b) BTN_LAST
      \<and> EDGE_DEBOUNCE_MS < sim_millis h - last_fall_time b)"
  by (simp add: falling_edge_result status_bits button_rise_step_bits
      button_rise_step_fields button_sample_bits button_sample_fields)

lemma button_update_bits:
  "bit (Button.status (button_update h b)) 3 =
     (sim_read_pin h (Button.pin b) = 0 \<and> STATUS_NONE (Button.status b) BTN_LAST
      \<and> EDGE_DEBOUNCE_MS < sim_millis h - last_rise_time b)"
  "bit (Button.status (button_update h b)) 4 =
     (sim_read_pin h (Button.pin b) \<noteq> 0 \<and> STATUS_ANY (Button.status b) BTN_LAST
      \<and> EDGE_DEBOUNCE_MS < sim_millis h - last_fall_time b)"
  "bit (Button.status (button_update h b)) (Suc 0) =
     (if bit (Button.status (button_update h b)) 3 then True
      else if bit (Button.status (button_update h b)) 4 then False
      else bit (Button.status b) 1)"
  by (auto simp add: button_update_def button_store_last_bits button_config_step_bits
      button_fall_step_bits button_rise_step_bits button_sample_bits rise_after_sample
      fall_after_rise)

lemma button_update_rise_time:
  "last_rise_time (button_update h b) =
     (if bit (Button.status (button_update h b)) 3 then sim_millis h else last_rise_time b)"
  unfolding button_update_bits
  by (simp add: button_update_def button_store_last_fields button_config_step_fields
      button_fall_step_fields button_rise_step_fields button_sample_fields rise_after_sample)


lemma button_update_fall_time:
  "last_fall_time (button_update h b) =
     (if bit (Button.status (button_update h b)) 4 then sim_millis h else last_fall_time b)"
  unfolding button_update_bits
  by (simp add: button_update_def button_store_last_fields button_config_step_fields
      button_fall_step_fields button_rise_step_fields button_sample_fields fall_after_rise)

lemma button_update_last:
  "bit (Button.status (button_update h b)) 2 = bit (Button.status (button_update h b)) 1"
  by (simp add: button_update_def button_store_last_bits)

lemma config_action_pin:
  "Button.pin (snd (button_detect_config_action h b)) = Button.pin b"
  by (simp add: button_detect_config_action_def Let_def split_beta)

lemma button_update_pin: "Button.pin (button_update h b) = Button.pin b"
  by (simp add: button_update_def button_store_last_def button_config_step_def
      button_fall_step_def button_rise_step_def button_sample_fields split_beta
      config_action_pin falling_edge_button rising_edge_button)

lemma button_init_a:
  "button_init button_a_pin =
     Some \<lparr>Button.pin = button_a_pin, status = 0, tap_count = 0, last_rise_time = 0,
           last_fall_time = 0, last_tap_time = 0\<rparr>"
  by (simp add: button_init_def button_reset_def max_pin_def SIM_NUM_PINS_def button_a_pin_def)

lemma hal_at_simps:
  "sim_millis (hal_at t a b cv) = t"
  "sim_read_pin (hal_at t a b cv) button_a_pin = (if a then 0 else 1)"
  "sim_read_pin (hal_at t a b cv) button_b_pin = (if b then 0 else 1)"
  "sim_adc_read (hal_at t a b cv) CV_ADC_CHANNEL = cv"
  by (simp_all add: hal_at_def sim_millis_def sim_read_pin_def sim_adc_read_def
      button_a_pin_def button_b_pin_def SIM_NUM_PINS_def CV_ADC_CHANNEL_def)

text \<open>
  Claim C9, as the code has it. The rising edge is asserted exactly when the raw sample
  is pressed, the previous cycle's debounced-pressed bit (\<open>BTN_LAST\<close>) is clear, and
  strictly more than 5 ms have passed since the previous rising edge (the subtraction
  wraps around with the 32-bit clock); on assertion \<open>button_update\<close> sets the
  debounced-pressed bit and stores the time in \<open>last_rise_time\<close>, which is left alone
  otherwise.
\<close>

theorem button_rising_edge_guard:
  "fst (button_has_rising_edge h b) =
     (STATUS_ANY (Button.status b) BTN_RAW \<and> STATUS_NONE (Button.status b) BTN_LAST
      \<and> 5 < sim_millis h - last_rise_time b)
   \<and> STATUS_ANY (Button.status (button_update h b)) BTN_RISE =
     (sim_read_pin h (Button.pin b) = 0 \<and> STATUS_NONE (Button.status b) BTN_LAST
      \<and> 5 < sim_millis h - last_rise_time b)
   \<and> (STATUS_ANY (Button.status (button_update h b)) BTN_RISE
        \<and> STATUS_ANY (Button.status (button_update h b)) BTN_PRESSED)
       = STATUS_ANY (Button.status (button_update h b)) BTN_RISE
   \<and> last_rise_time (button_update h b) =
       (if STATUS_ANY (Button.status (button_update h b)) BTN_RISE then sim_millis h
        else last_rise_time b)"
  using rising_edge_result [of h b] button_update_bits [of h b] button_update_rise_time [of h b]
  by (auto simp add: status_bits EDGE_DEBOUNCE_MS_def)

text \<open>
  Claim C9 as stated fails at exactly 5 ms. Button A is pressed at 100 ms (rising edge
  asserted), released at 102 ms, and pressed again at 105 ms: at that call the raw
  sample is pressed, the debounced-pressed bit of the previous cycle is clear and 5 ms
  have passed since the previous rising edge, yet no rising edge is asserted.
\<close>

theorem button_rising_edge_at_5ms:
  "STATUS_ANY (Button.status (button_update (hal_at 100 True False 0)
        (the (button_init button_a_pin)))) BTN_RISE
   \<and> \<not> STATUS_ANY (Button.status (button_update (hal_at 102 False False 0)
        (button_update (hal_at 100 True False 0) (the (button_init button_a_pin)))))
        BTN_LAST
   \<and> sim_read_pin (hal_at 105 True False 0) button_a_pin = 0
   \<and> sim_millis (hal_at 105 True False 0)
       - last_rise_time (button_update (hal_at 102 False False 0)
           (button_update (hal_at 100 True False 0) (the (button_init button_a_pin)))) = 5
   \<and> \<not> STATUS_ANY (Button.status (button_update (hal_at 105 True False 0)
        (button_update (hal_at 102 False False 0)
          (button_update (hal_at 100 True False 0) (the (button_init button_a_pin))))))
        BTN_RISE"
  by (simp add: status_bits button_update_bits button_update_rise_time button_update_fall_time
      button_update_last button_update_pin hal_at_simps button_init_a EDGE_DEBOUNCE_MS_def)

section \<open>Properties: pulse output\<close>

lemma sim_pin_time:
  "sim_millis (sim_set_pin p h) = sim_millis h"
  "sim_millis (sim_clear_pin p h) = sim_millis h"
  "sim_millis (sim_toggle_pin p h) = sim_millis h"
  by (simp_all add: sim_millis_def sim_set_pin_def sim_clear_pin_def sim_toggle_pin_def)

lemma pulse_step:
  fixes cv x h
  defines "r \<equiv> cv_output_update_pulse cv x h"
  defines "rising \<equiv> x \<and> \<not> bit (CVOutput.status cv) 2"
  defines "expired \<equiv> PULSE_DURATION_MS \<le> sim_millis h - pulse_start cv"
  shows "bit (CVOutput.status (fst (snd r))) 2 = x"
    and "bit (CVOutput.status (fst (snd r))) (Suc 0) =
           (if rising then True else bit (CVOutput.status cv) 1 \<and> \<not> expired)"
    and "bit (CVOutput.status (fst (snd r))) 0 =
           (if rising then True
            else if bit (CVOutput.status cv) 1 \<and> expired then False
            else bit (CVOutput.status cv) 0)"
    and "pulse_start (fst (snd r)) = (if rising then sim_millis h else pulse_start cv)"
    and "fst r = bit (CVOutput.status (fst (snd r))) 0"
    and "sim_millis (snd (snd r)) = sim_millis h"
  unfolding r_def rising_def expired_def
  by (cases x; cases "bit (CVOutput.status cv) 2"; cases "bit (CVOutput.status cv) 1";
      cases "PULSE_DURATION_MS \<le> sim_millis h - pulse_start cv";
      simp add: cv_output_update_pulse_def cv_output_set_def cv_output_clear_def Let_def
        status_bits sim_pin_time PULSE_DURATION_MS_def)+


lemma u32_pulse_expiry:
  assumes "a < 10"
  shows "((10::u32) \<le> 1 + of_nat a) = (9 \<le> a)"
proof -
  have e: "(1 + of_nat a :: u32) = of_nat (Suc a)" by simp
  have u: "unat (of_nat (Suc a) :: u32) = Suc a"
    using assms unat_of_nat [of "Suc a", where ?'a = 32] by (simp del: of_nat_Suc)
  show ?thesis
    unfolding e word_le_nat_alt u by auto
qed

lemma pulse_ticks_level:
  "bit (CVOutput.status cv) 2 = prev \<Longrightarrow>
   bit (CVOutput.status cv) 0 = bit (CVOutput.status cv) 1 \<Longrightarrow>
   bit (CVOutput.status cv) 1 = (case age of None \<Rightarrow> False | Some a \<Rightarrow> a < 10) \<Longrightarrow>
   (\<And>a. age = Some a \<Longrightarrow> a < 10 \<Longrightarrow> sim_millis h - pulse_start cv = 1 + of_nat a) \<Longrightarrow>
   pulse_ticks cv h xs = pulse_level prev age xs"
proof (induction xs arbitrary: cv h prev age)
  case Nil
  then show ?case by simp
next
  case (Cons x xs)
  obtain out cv' h' where r: "cv_output_update_pulse cv x h = (out, cv', h')"
    by (cases "cv_output_update_pulse cv x h") auto
  let ?rising = "x \<and> \<not> prev"
  let ?age' = "if ?rising then Some 0 else map_option Suc age"
  have exp: "\<not> ?rising \<Longrightarrow> bit (CVOutput.status cv) 1 \<Longrightarrow>
             (PULSE_DURATION_MS \<le> sim_millis h - pulse_start cv) = (age = Some 9)"
    using Cons.prems(3,4) by (cases age) (auto simp add: PULSE_DURATION_MS_def u32_pulse_expiry)
  have b2: "bit (CVOutput.status cv') 2 = x"
    using pulse_step(1) [of cv x h] r by simp
  have b1: "bit (CVOutput.status cv') 1 = (case ?age' of None \<Rightarrow> False | Some a \<Rightarrow> a < 10)"
    using pulse_step(2) [of cv x h] r exp Cons.prems(1,3)
    by (cases age) (auto simp add: )
  have b0: "bit (CVOutput.status cv') 0 = bit (CVOutput.status cv') 1"
    using pulse_step(3) [of cv x h] pulse_step(2) [of cv x h] r Cons.prems(1,2)
    by auto
  have out: "out = (case ?age' of None \<Rightarrow> False | Some a \<Rightarrow> a < 10)"
    using pulse_step(5) [of cv x h] r b0 b1 by simp
  have tm: "sim_millis (sim_advance_time 1 h') = sim_millis h + 1"
    using pulse_step(6) [of cv x h] r by (simp add: sim_advance_time_def sim_millis_def)
  have ps: "pulse_start cv' = (if ?rising then sim_millis h else pulse_start cv)"
    using pulse_step(4) [of cv x h] r Cons.prems(1) by simp
  have inv: "\<And>a. ?age' = Some a \<Longrightarrow> a < 10 \<Longrightarrow>
              sim_millis (sim_advance_time 1 h') - pulse_start cv' = 1 + of_nat a"
    using Cons.prems(4) by (cases age) (auto simp add: tm ps split: if_splits)
  have "pulse_ticks cv' (sim_advance_time 1 h') xs = pulse_level x ?age' xs"
    by (rule Cons.IH [OF b2 b0 b1 inv])
  then show ?case
    using r out by (simp add: Let_def Cons.prems(1))
qed

lemma pulse_ticks_init:
  "pulse_ticks (cv_output_init p) h xs = pulse_level False None xs"
  by (rule pulse_ticks_level) (simp_all add: cv_output_init_def)


text \<open>
  Claim C2, as the code has it. The pulse is retriggerable: every rising edge of the
  input (input high, previous input low) stores the current time in \<open>pulse_start\<close>
  and sets the output, also while the output is still high. A call without a rising
  edge clears the output when a pulse is active and 10 ms or more have passed since
  \<open>pulse_start\<close>, and leaves it alone otherwise. Called once per tick of 1 ms from
  the initial state, the output is therefore high at a tick exactly when fewer than
  10 ticks have passed since the most recent rising edge (\<open>pulse_level\<close>). With a
  single rising edge at tick 1000 and the input falling at tick 1002 the output is high
  on ticks 1000 to 1009 and low from tick 1010.
\<close>

theorem pulse_retriggerable:
  "pulse_ticks (cv_output_init p) h xs = pulse_level False None xs
   \<and> pulse_start (fst (snd (cv_output_update_pulse cv x h))) =
       (if x \<and> \<not> STATUS_ANY (CVOutput.status cv) CVOUT_LAST_IN then sim_millis h
        else pulse_start cv)
   \<and> fst (cv_output_update_pulse cv x h) =
       (if x \<and> \<not> STATUS_ANY (CVOutput.status cv) CVOUT_LAST_IN then True
        else if STATUS_ANY (CVOutput.status cv) CVOUT_PULSE
                \<and> 10 \<le> sim_millis h - pulse_start cv then False
        else STATUS_ANY (CVOutput.status cv) CVOUT_STATE)
   \<and> pulse_ticks (cv_output_init sig_out_pin) (hal_at 1000 False False 0)
         [True, True, False, False, False, False, False, False, False, False,
          False, False, False, False, False, False]
       = [True, True, True, True, True, True, True, True, True, True,
          False, False, False, False, False, False]"
  unfolding pulse_ticks_init
  using pulse_step(3,4,5) [of cv x h]
  by (simp add: status_bits PULSE_DURATION_MS_def)

text \<open>
  Claim C2 as stated fails when the input rises again while the output is high. The
  input rises at tick 1000, falls at tick 1002 and rises again at tick 1005: the second
  edge restarts the pulse, and the output is still high on ticks 1010 to 1014, more
  than 10 ms after the edge that started the pulse; it returns low at tick 1015.
\<close>

theorem pulse_retrigger_extends:
  "pulse_ticks (cv_output_init sig_out_pin) (hal_at 1000 False False 0)
     [True, True, False, False, False, True, False, False, False, False,
      False, False, False, False, False, False]
   = [True, True, True, True, True, True, True, True, True, True,
      True, True, True, True, True, False]"
  unfolding pulse_ticks_init by simp

section \<open>Properties: event processor\<close>

lemma ep_store_inputs_fields:
  "bit (EventProcessor.status (ep_store_inputs inp ep)) n =
     (if n = 0 then button_a inp else if n = 3 then button_b inp
      else if n = 6 then cv_in inp else bit (EventProcessor.status ep) n)"
  "ext_status (ep_store_inputs inp ep) = ext_status ep"
  "a_press_time (ep_store_inputs inp ep) = a_press_time ep"
  "b_press_time (ep_store_inputs inp ep) = b_press_time ep"
  by (simp_all add: ep_store_inputs_def Let_def status_bits)

lemma ep_button_a_event:
  "fst (ep_button_a now p) =
     (let s = EventProcessor.status (snd p); x = ext_status (snd p)
      in if bit s 0 \<and> \<not> bit s 1 then EVT_A_PRESS
         else if \<not> bit s 0 \<and> bit s 1
         then (if \<not> bit s 2 then EVT_A_TAP
               else if \<not> bit x 1 \<and> \<not> bit x 0 then EVT_MODE_NEXT else EVT_A_RELEASE)
         else if bit s 0 \<and> \<not> bit s 2 \<and> EP_HOLD_THRESHOLD_MS \<le> now - a_press_time (snd p)
                 \<and> \<not> bit s 3
         then EVT_A_HOLD else fst p)"
  by (cases p) (simp add: ep_button_a_def Let_def status_bits)

lemma ep_button_a_status:
  "bit (EventProcessor.status (snd (ep_button_a now p))) n =
     (let s = EventProcessor.status (snd p)
      in if n = 2
         then (if bit s 0 \<and> \<not> bit s 1 then False
               else if \<not> bit s 0 \<and> bit s 1 then False
               else if bit s 0 \<and> \<not> bit s 2
               then EP_HOLD_THRESHOLD_MS \<le> now - a_press_time (snd p)
               else bit s 2)
         else bit s n)"
  by (cases p) (simp add: ep_button_a_def Let_def status_bits)

lemma ep_button_a_ext:
  "bit (ext_status (snd (ep_button_a now p))) n =
     (let s = EventProcessor.status (snd p)
      in if bit s 0 \<and> \<not> bit s 1 \<and> n = 1 then False else bit (ext_status (snd p)) n)"
  by (cases p) (simp add: ep_button_a_def Let_def status_bits)

lemma ep_button_a_times:
  "a_press_time (snd (ep_button_a now p)) =
     (let s = EventProcessor.status (snd p)
      in if bit s 0 \<and> \<not> bit s 1 then now else a_press_time (snd p))"
  "b_press_time (snd (ep_button_a now p)) = b_press_time (snd p)"
  by (cases p; simp add: ep_button_a_def Let_def status_bits)+

lemma ep_button_b_event:
  "fst (ep_button_b now p) =
     (let s = EventProcessor.status (snd p)
      in if fst p \<noteq> EVT_NONE then fst p
         else if bit s 3 \<and> \<not> bit s 4 then EVT_B_PRESS
         else if \<not> bit s 3 \<and> bit s 4
         then (if \<not> bit s 5 then EVT_B_TAP else EVT_B_RELEASE)
         else if bit s 3 \<and> \<not> bit s 5 \<and> EP_HOLD_THRESHOLD_MS \<le> now - b_press_time (snd p)
         then EVT_B_HOLD else EVT_NONE)"
  by (cases p) (simp add: ep_button_b_def Let_def status_bits)

lemma ep_button_b_status:
  "bit (EventProcessor.status (snd (ep_button_b now p))) n =
     (let s = EventProcessor.status (snd p)
      in if n = 5
         then (if bit s 3 \<and> \<not> bit s 4 then False
               else if \<not> bit s 3 \<and> bit s 4 then False
               else if bit s 3 \<and> \<not> bit s 5
               then EP_HOLD_THRESHOLD_MS \<le> now - b_press_time (snd p)
               else bit s 5)
         else bit s n)"
  by (cases p) (simp add: ep_button_b_def Let_def status_bits)

lemma ep_button_b_ext:
  "bit (ext_status (snd (ep_button_b now p))) n =
     (let s = EventProcessor.status (snd p)
      in if bit s 3 \<and> \<not> bit s 4 \<and> bit s 2 \<and> n = 1 then True
         else bit (ext_status (snd p)) n)"
  by (cases p) (simp add: ep_button_b_def Let_def status_bits)

lemma ep_button_b_times:
  "a_press_time (snd (ep_button_b now p)) = a_press_time (snd p)"
  "b_press_time (snd (ep_button_b now p)) =
     (let s = EventProcessor.status (snd p)
      in if bit s 3 \<and> \<not> bit s 4 then now else b_press_time (snd p))"
  by (cases p; simp add: ep_button_b_def Let_def status_bits)+

lemma ep_compound_event:
  "fst (ep_compound p) =
     (if \<not> bit (ext_status (snd p)) 0 \<and> fst p = EVT_B_HOLD
         \<and> bit (EventProcessor.status (snd p)) 0
         \<and> a_press_time (snd p) < b_press_time (snd p)
      then EVT_MENU_TOGGLE else fst p)"
  by (cases p) (simp add: ep_compound_def Let_def status_bits split_beta)

lemma ep_compound_ext:
  "bit (ext_status (snd (ep_compound p))) n =
     (let s = EventProcessor.status (snd p)
      in if n = 0
         then (if \<not> bit s 0 \<and> \<not> bit s 3 then False
               else bit (ext_status (snd p)) 0
                    \<or> (fst p = EVT_B_HOLD \<and> bit s 0
                        \<and> a_press_time (snd p) < b_press_time (snd p)))
         else bit (ext_status (snd p)) n)"
  by (cases p) (auto simp add: ep_compound_def Let_def status_bits split_beta)

lemma ep_compound_fields:
  "EventProcessor.status (snd (ep_compound p)) = EventProcessor.status (snd p)"
  "a_press_time (snd (ep_compound p)) = a_press_time (snd p)"
  "b_press_time (snd (ep_compound p)) = b_press_time (snd p)"
  by (cases p; simp add: ep_compound_def Let_def split_beta)+

lemma ep_cv_edge_event:
  "fst (ep_cv_edge p) =
     (let s = EventProcessor.status (snd p)
      in if fst p \<noteq> EVT_NONE then fst p
         else if bit s 6 \<and> \<not> bit s 7 then EVT_CV_RISE
         else if \<not> bit s 6 \<and> bit s 7 then EVT_CV_FALL
         else EVT_NONE)"
  by (cases p) (simp add: ep_cv_edge_def Let_def status_bits)

lemma ep_cv_edge_state: "snd (ep_cv_edge p) = snd p"
  by (cases p) (simp add: ep_cv_edge_def Let_def)

lemma ep_update_last_event: "fst (ep_update_last p) = fst p"
  by (cases p) (simp add: ep_update_last_def Let_def)

lemma ep_update_last_status:
  "bit (EventProcessor.status (snd (ep_update_last p))) n =
     (let s = EventProcessor.status (snd p)
      in if n = 1 then bit s 0 else if n = 4 then bit s 3 else if n = 7 then bit s 6
         else bit s n)"
  by (cases p) (simp add: ep_update_last_def Let_def status_bits)

lemma ep_update_last_fields:
  "ext_status (snd (ep_update_last p)) = ext_status (snd p)"
  "a_press_time (snd (ep_update_last p)) = a_press_time (snd p)"
  "b_press_time (snd (ep_update_last p)) = b_press_time (snd p)"
  by (cases p; simp add: ep_update_last_def Let_def)+

lemmas ep_stages =
  ep_store_inputs_fields ep_button_a_event ep_button_a_status ep_button_a_ext ep_button_a_times
  ep_button_b_event ep_button_b_status ep_button_b_ext ep_button_b_times
  ep_compound_event ep_compound_ext ep_compound_fields
  ep_cv_edge_event ep_cv_edge_state ep_update_last_event ep_update_last_status
  ep_update_last_fields


lemma ep_update_compound_flag:
  assumes "bit (EventProcessor.status ep) 1" "\<not> button_a inp"
  shows "bit (ext_status (snd (event_processor_update ep inp))) 0 =
           (button_b inp \<and> bit (ext_status ep) 0)"
  using assms by (simp add: event_processor_update_def Let_def ep_stages)

lemma ep_update_pressed_bits:
  "bit (EventProcessor.status (snd (event_processor_update ep inp))) 0 = button_a inp"
  "bit (EventProcessor.status (snd (event_processor_update ep inp))) 3 = button_b inp"
  by (simp_all add: event_processor_update_def Let_def ep_stages)

lemma ep_update_release_event:
  assumes "bit (EventProcessor.status ep) 1" "\<not> button_a inp"
  shows "fst (event_processor_update ep inp) =
           (if \<not> bit (EventProcessor.status ep) 2 then EVT_A_TAP
            else if \<not> bit (ext_status ep) 1 \<and> \<not> bit (ext_status ep) 0 then EVT_MODE_NEXT
            else EVT_A_RELEASE)"
  using assms by (simp add: event_processor_update_def Let_def ep_stages)

text \<open>
  Claim C8. In every call of \<open>event_processor_update\<close> in which A goes from pressed
  (the \<open>EP_A_LAST\<close> bit of the previous call) to not pressed, the compound-fired flag is
  cleared when B is not pressed at the end of the call and keeps its prior value when B
  is still pressed: so a flag that was set is cleared if and only if B is not pressed.
  The B-pressed bit at the end of the call is the B input of the call, and the event
  returned by such a call is A-tap, mode-next or A-release.
\<close>

theorem compound_flag_after_a_release:
  assumes "STATUS_ANY (EventProcessor.status ep) EP_A_LAST" and "\<not> button_a inp"
  shows "event_processor_b_pressed (snd (event_processor_update ep inp)) = button_b inp
    \<and> (ext_status (snd (event_processor_update ep inp)) AND EP_COMPOUND_FIRED \<noteq> 0) =
        (if event_processor_b_pressed (snd (event_processor_update ep inp))
         then ext_status ep AND EP_COMPOUND_FIRED \<noteq> 0 else False)
    \<and> fst (event_processor_update ep inp) \<in> {EVT_A_TAP, EVT_MODE_NEXT, EVT_A_RELEASE}"
  using assms ep_update_compound_flag [of ep inp] ep_update_pressed_bits [of ep inp]
    ep_update_release_event [of ep inp]
  by (simp add: status_bits event_processor_b_pressed_def)

theorem compound_flag_after_a_release_witness:
  "STATUS_ANY (EventProcessor.status
       \<lparr>status = EP_A_PRESSED OR EP_A_LAST OR EP_A_HOLD OR EP_B_PRESSED OR EP_B_LAST,
        ext_status = EP_COMPOUND_FIRED, a_press_time = 100, b_press_time = 200\<rparr>) EP_A_LAST
   \<and> \<not> button_a \<lparr>button_a = False, button_b = True, cv_in = False, current_time = 900\<rparr>
   \<and> ext_status (snd (event_processor_update
         \<lparr>status = EP_A_PRESSED OR EP_A_LAST OR EP_A_HOLD OR EP_B_PRESSED OR EP_B_LAST,
          ext_status = EP_COMPOUND_FIRED, a_press_time = 100, b_press_time = 200\<rparr>
         \<lparr>button_a = False, button_b = True, cv_in = False, current_time = 900\<rparr>))
       AND EP_COMPOUND_FIRED \<noteq> 0
   \<and> ext_status (snd (event_processor_update
         \<lparr>status = EP_A_PRESSED OR EP_A_LAST OR EP_A_HOLD OR EP_B_PRESSED OR EP_B_LAST,
          ext_status = EP_COMPOUND_FIRED, a_press_time = 100, b_press_time = 200\<rparr>
         \<lparr>button_a = False, button_b = False, cv_in = False, current_time = 900\<rparr>))
       AND EP_COMPOUND_FIRED = 0"
proof -
  let ?ep = "\<lparr>status = EP_A_PRESSED OR EP_A_LAST OR EP_A_HOLD OR EP_B_PRESSED OR EP_B_LAST,
             ext_status = EP_COMPOUND_FIRED, a_press_time = 100, b_press_time = 200\<rparr>"
  let ?held = "\<lparr>button_a = False, button_b = True, cv_in = False, current_time = 900\<rparr>"
  let ?both = "\<lparr>button_a = False, button_b = False, cv_in = False, current_time = 900\<rparr>"
  have a_last: "STATUS_ANY (EventProcessor.status ?ep) EP_A_LAST"
    by (simp add: status_bits)
  have fired: "ext_status ?ep AND EP_COMPOUND_FIRED \<noteq> 0"
    by (simp add: EP_COMPOUND_FIRED_def)
  have r1: "\<not> button_a ?held" and r2: "\<not> button_a ?both"
    by simp_all
  have "ext_status (snd (event_processor_update ?ep ?held)) AND EP_COMPOUND_FIRED \<noteq> 0"
    using compound_flag_after_a_release [OF a_last r1] fired by auto
  moreover have "ext_status (snd (event_processor_update ?ep ?both)) AND EP_COMPOUND_FIRED = 0"
    using compound_flag_after_a_release [OF a_last r2] by auto
  ultimately show ?thesis
    using a_last r1 by blast
qed


lemma u32_of_nat_less_500: "k < 500 \<Longrightarrow> (of_nat k :: u32) < 500"
  by (simp add: word_less_nat_alt unat_of_nat)

lemma solo_press:
  "fst (event_processor_update event_processor_init (solo_hold_input t c 0)) = EVT_A_PRESS"
  "ep_a_held t c False (snd (event_processor_update event_processor_init (solo_hold_input t c 0)))"
  by (simp_all add: event_processor_update_def Let_def ep_stages ep_a_held_def status_bits
      event_processor_init_def solo_hold_input_def)

lemma solo_idle:
  assumes "ep_a_held t c False ep" "0 < k" "k < 500"
  shows "fst (event_processor_update ep (solo_hold_input t c k)) = EVT_NONE
       \<and> ep_a_held t c False (snd (event_processor_update ep (solo_hold_input t c k)))"
proof -
  have "\<not> EP_HOLD_THRESHOLD_MS \<le> (of_nat k :: u32)"
    using u32_of_nat_less_500 [OF assms(3)] by (simp add: EP_HOLD_THRESHOLD_MS_def not_le)
  then show ?thesis
    using assms
    by (simp add: event_processor_update_def Let_def ep_stages ep_a_held_def status_bits
        solo_hold_input_def)
qed

lemma solo_latch:
  assumes "ep_a_held t c False ep"
  shows "fst (event_processor_update ep (solo_hold_input t c 500)) = EVT_A_HOLD
       \<and> ep_a_held t c True (snd (event_processor_update ep (solo_hold_input t c 500)))"
  using assms
  by (simp add: event_processor_update_def Let_def ep_stages ep_a_held_def status_bits
      solo_hold_input_def EP_HOLD_THRESHOLD_MS_def)

lemma solo_latched_idle:
  assumes "ep_a_held t c True ep" "k < 600"
  shows "fst (event_processor_update ep (solo_hold_input t c k)) = EVT_NONE
       \<and> ep_a_held t c True (snd (event_processor_update ep (solo_hold_input t c k)))"
  using assms
  by (simp add: event_processor_update_def Let_def ep_stages ep_a_held_def status_bits
      solo_hold_input_def)

lemma solo_release:
  assumes "ep_a_held t c True ep"
  shows "fst (event_processor_update ep (solo_hold_input t c 600)) = EVT_MODE_NEXT"
  using assms
  by (simp add: event_processor_update_def Let_def ep_stages ep_a_held_def status_bits
      solo_hold_input_def)

lemma run_append:
  "event_processor_run ep (xs @ ys) =
     (fst (event_processor_run ep xs) @ fst (event_processor_run (snd (event_processor_run ep xs)) ys),
      snd (event_processor_run (snd (event_processor_run ep xs)) ys))"
  by (induction xs arbitrary: ep) (simp_all add: split_beta)

lemma run_single:
  "event_processor_run ep [i] =
     ([fst (event_processor_update ep i)], snd (event_processor_update ep i))"
  by (simp add: split_beta)

lemma run_idle:
  assumes "P ep"
    and "\<And>ep i. P ep \<Longrightarrow> i \<in> set is \<Longrightarrow>
           fst (event_processor_update ep i) = EVT_NONE \<and> P (snd (event_processor_update ep i))"
  shows "fst (event_processor_run ep is) = replicate (length is) EVT_NONE
       \<and> P (snd (event_processor_run ep is))"
  using assms
proof (induction "is" arbitrary: ep)
  case Nil
  then show ?case by simp
next
  case (Cons i "is")
  have step: "fst (event_processor_update ep i) = EVT_NONE" "P (snd (event_processor_update ep i))"
    using Cons.prems(2) [OF Cons.prems(1), of i] by simp_all
  have "fst (event_processor_run (snd (event_processor_update ep i)) is)
          = replicate (length is) EVT_NONE
        \<and> P (snd (event_processor_run (snd (event_processor_update ep i)) is))"
    by (rule Cons.IH [OF step(2)]) (simp add: Cons.prems(2))
  then show ?case
    using step by (simp add: split_beta)
qed

lemma solo_ticks_split:
  "[0..<601] = [0] @ [1..<500] @ [500] @ [501..<600] @ [600]"
proof -
  have "[0..<601] = [0..<1] @ [1..<601]" using upt_add_eq_append [of 0 1 600] by simp
  moreover have "[1..<601] = [1..<500] @ [500..<601]" using upt_add_eq_append [of 1 500 101] by simp
  moreover have "[500..<601] = [500..<501] @ [501..<601]" using upt_add_eq_append [of 500 501 100] by simp
  moreover have "[501..<601] = [501..<600] @ [600..<601]" using upt_add_eq_append [of 501 600 1] by simp
  moreover have "[0..<1] = [0::nat]" "[500..<501] = [500::nat]" "[600..<601] = [600::nat]"
    by (simp_all add: upt_rec)
  ultimately show ?thesis by simp
qed

lemma solo_hold_events:
  "fst (event_processor_run event_processor_init (solo_hold_inputs t c)) =
     EVT_A_PRESS # replicate 499 EVT_NONE @ EVT_A_HOLD # replicate 99 EVT_NONE @ [EVT_MODE_NEXT]"
proof -
  let ?u = "event_processor_update"
  let ?i = "solo_hold_input t c"
  define xs where "xs = map ?i [1..<500]"
  define ys where "ys = map ?i [501..<600]"
  define e1 where "e1 = snd (?u event_processor_init (?i 0))"
  define e2 where "e2 = snd (event_processor_run e1 xs)"
  define e3 where "e3 = snd (?u e2 (?i 500))"
  define e4 where "e4 = snd (event_processor_run e3 ys)"
  have lx: "length xs = 499" and ly: "length ys = 99"
    by (simp_all add: xs_def ys_def)
  have h1: "ep_a_held t c False e1" unfolding e1_def by (rule solo_press)
  have r2: "fst (event_processor_run e1 xs) = replicate (length xs) EVT_NONE
            \<and> ep_a_held t c False (snd (event_processor_run e1 xs))"
    by (rule run_idle [where P = "ep_a_held t c False", OF h1])
       (auto simp add: xs_def solo_idle)
  have h2: "ep_a_held t c False e2" using r2 by (simp add: e2_def)
  have h3: "ep_a_held t c True e3" unfolding e3_def using solo_latch [OF h2] by simp
  have r4: "fst (event_processor_run e3 ys) = replicate (length ys) EVT_NONE
            \<and> ep_a_held t c True (snd (event_processor_run e3 ys))"
    by (rule run_idle [where P = "ep_a_held t c True", OF h3])
       (auto simp add: ys_def solo_latched_idle)
  have h4: "ep_a_held t c True e4" using r4 by (simp add: e4_def)
  have split: "solo_hold_inputs t c = [?i 0] @ xs @ [?i 500] @ ys @ [?i 600]"
    unfolding solo_hold_inputs_def solo_ticks_split xs_def ys_def by simp
  have "fst (event_processor_run event_processor_init ([?i 0] @ xs @ [?i 500] @ ys @ [?i 600]))
        = [fst (?u event_processor_init (?i 0))] @ fst (event_processor_run e1 xs)
          @ [fst (?u e2 (?i 500))] @ fst (event_processor_run e3 ys) @ [fst (?u e4 (?i 600))]"
    unfolding run_append run_single fst_conv snd_conv
      e1_def [symmetric] e2_def [symmetric] e3_def [symmetric] e4_def [symmetric]
    by (rule refl)
  then show ?thesis
    unfolding split
    using r2 r4 solo_press(1) [of t c] solo_latch [OF h2] solo_release [OF h4] lx ly
    by simp
qed


text \<open>
  Claim C7, as the code has it. From the reset state, with B never pressed and the CV
  level constant: A pressed at \<open>t\<close>, held, and released at \<open>t + 600\<close> gives, on the
  601 ticks, A-press at \<open>t\<close>, A-hold at \<open>t + 500\<close> and mode-next at \<open>t + 600\<close>, and
  no event on the other ticks. The non-none events are exactly A-press, A-hold,
  mode-next: neither A-tap nor A-release, but the solo hold itself is reported.
\<close>

theorem solo_hold_event_sequence:
  "filter (\<lambda>e. e \<noteq> EVT_NONE)
     (fst (event_processor_run event_processor_init (solo_hold_inputs t c)))
     = [EVT_A_PRESS, EVT_A_HOLD, EVT_MODE_NEXT]
   \<and> fst (event_processor_run event_processor_init (solo_hold_inputs t c))
     = EVT_A_PRESS # replicate 499 EVT_NONE @ EVT_A_HOLD # replicate 99 EVT_NONE
         @ [EVT_MODE_NEXT]"
  by (simp add: solo_hold_events)

text \<open>
  Claim C7 as stated fails: with A pressed at 100 ms and the CV low, the non-none events
  are not A-press followed by mode-next, because A-hold is emitted in between.
\<close>

theorem solo_hold_emits_a_hold:
  "filter (\<lambda>e. e \<noteq> EVT_NONE)
     (fst (event_processor_run event_processor_init (solo_hold_inputs 100 False)))
     = [EVT_A_PRESS, EVT_A_HOLD, EVT_MODE_NEXT]
   \<and> filter (\<lambda>e. e \<noteq> EVT_NONE)
     (fst (event_processor_run event_processor_init (solo_hold_inputs 100 False)))
     \<noteq> [EVT_A_PRESS, EVT_MODE_NEXT]"
  by (simp add: solo_hold_events)

section \<open>Properties: settings store and startup\<close>

lemma upt_8: "[0..<8] = [0, 1, 2, 3, 4, 5, 6, 7]"
  by (simp add: upt_rec)

lemma calculate_checksum_xor:
  "calculate_checksum s =
     mode s XOR trigger_pulse_idx s XOR trigger_edge s XOR divide_divisor_idx s
       XOR cycle_tempo_idx s XOR toggle_edge s XOR gate_a_mode s XOR reserved s"
  by (simp add: calculate_checksum_def settings_bytes_def xor.assoc)

lemma read_stored_settings:
  "settings_of_bytes
     (map (\<lambda>i. sim_eeprom_read_byte h (EEPROM_SETTINGS_ADDR + of_nat i)) [0..<APP_SETTINGS_SIZE])
   = stored_settings h"
  by (simp add: APP_SETTINGS_SIZE_def upt_8 settings_of_bytes_def stored_settings_def
      EEPROM_SETTINGS_ADDR_def)

lemma check_limits_Cons:
  "check_limits ((l, f) # r) = ((l = 0 \<or> f < l) \<and> check_limits r)"
  by (auto simp add: not_le word_gt_0)

lemma check_limits_range:
  "check_limits (take SETTINGS_FIELD_COUNT (zip SETTINGS_LIMITS (settings_bytes s)))
     = settings_in_range s"
  by (simp add: SETTINGS_FIELD_COUNT_def SETTINGS_LIMITS_def settings_bytes_def
      settings_in_range_def MODE_COUNT_def TRIGGER_PULSE_COUNT_def TRIGGER_EDGE_COUNT_def
      DIVIDE_DIVISOR_COUNT_def CYCLE_TEMPO_COUNT_def TOGGLE_EDGE_COUNT_def
      GATE_A_MODE_COUNT_def check_limits_Cons del: check_limits.simps(2))

lemma load_settings_result:
  "fst (load_settings h s) =
     (sim_eeprom_read_word h EEPROM_MAGIC_ADDR = EEPROM_MAGIC_VALUE
      \<and> sim_eeprom_read_byte h EEPROM_SCHEMA_ADDR = SETTINGS_SCHEMA_VERSION
      \<and> sim_eeprom_read_byte h EEPROM_CHECKSUM_ADDR = calculate_checksum (stored_settings h)
      \<and> settings_in_range (stored_settings h))"
  by (simp add: load_settings_def Let_def read_stored_settings check_limits_range)

lemma load_settings_record:
  "snd (load_settings h s) =
     (if sim_eeprom_read_word h EEPROM_MAGIC_ADDR = EEPROM_MAGIC_VALUE
         \<and> sim_eeprom_read_byte h EEPROM_SCHEMA_ADDR = SETTINGS_SCHEMA_VERSION
      then stored_settings h else s)"
  by (simp add: load_settings_def Let_def read_stored_settings check_limits_range)

lemma load_settings_eeprom:
  assumes "sim_eeprom h' = sim_eeprom h"
  shows "load_settings h' s = load_settings h s"
proof -
  have b: "sim_eeprom_read_byte h' = sim_eeprom_read_byte h"
    by (rule ext) (simp add: sim_eeprom_read_byte_def assms)
  have w: "sim_eeprom_read_word h' = sim_eeprom_read_word h"
    by (rule ext) (simp add: sim_eeprom_read_word_def b)
  show ?thesis
    unfolding load_settings_def b w by (rule refl)
qed

lemma eeprom_addr_1: "\<not> (512::u16) \<le> 1"
  by (simp add: word_le_nat_alt)

lemma saved_eeprom:
  "sim_eeprom (app_init_save_settings s h) =
     (sim_eeprom h)(0 := 0x4B, 1 := 0x47, 2 := 2, 3 := mode s, 4 := trigger_pulse_idx s,
        5 := trigger_edge s, 6 := divide_divisor_idx s, 7 := cycle_tempo_idx s,
        8 := toggle_edge s, 9 := gate_a_mode s, 10 := reserved s,
        0x10 := calculate_checksum s)"
  by (simp add: app_init_save_settings_def Let_def sim_eeprom_write_word_def
      sim_eeprom_write_byte_def APP_SETTINGS_SIZE_def upt_8 settings_bytes_def
      EEPROM_MAGIC_ADDR_def EEPROM_MAGIC_VALUE_def EEPROM_SCHEMA_ADDR_def
      SETTINGS_SCHEMA_VERSION_def EEPROM_SETTINGS_ADDR_def EEPROM_CHECKSUM_ADDR_def
      SIM_EEPROM_SIZE_def eeprom_addr_1)

lemma saved_other:
  "pin_states (app_init_save_settings s h) = pin_states h"
  "sim_time_ms (app_init_save_settings s h) = sim_time_ms h"
  "timer_running (app_init_save_settings s h) = timer_running h"
  by (simp_all add: app_init_save_settings_def Let_def sim_eeprom_write_word_def
      sim_eeprom_write_byte_def APP_SETTINGS_SIZE_def upt_8
      EEPROM_MAGIC_ADDR_def EEPROM_SCHEMA_ADDR_def EEPROM_SETTINGS_ADDR_def
      EEPROM_CHECKSUM_ADDR_def SIM_EEPROM_SIZE_def eeprom_addr_1)

lemma saved_reads:
  "sim_eeprom_read_word (app_init_save_settings s h) EEPROM_MAGIC_ADDR = EEPROM_MAGIC_VALUE"
  "sim_eeprom_read_byte (app_init_save_settings s h) EEPROM_SCHEMA_ADDR = SETTINGS_SCHEMA_VERSION"
  "sim_eeprom_read_byte (app_init_save_settings s h) EEPROM_CHECKSUM_ADDR = calculate_checksum s"
  "stored_settings (app_init_save_settings s h) = s"
  by (simp_all add: saved_eeprom sim_eeprom_read_word_def sim_eeprom_read_byte_def
      stored_settings_def EEPROM_MAGIC_ADDR_def EEPROM_MAGIC_VALUE_def EEPROM_SCHEMA_ADDR_def
      SETTINGS_SCHEMA_VERSION_def EEPROM_CHECKSUM_ADDR_def SIM_EEPROM_SIZE_def eeprom_addr_1)

lemma load_after_save:
  "load_settings (app_init_save_settings s h) s0 = (settings_in_range s, s)"
  by (simp add: prod_eq_iff load_settings_result load_settings_record saved_reads)


lemma hal_eeprom_kept:
  "sim_eeprom (sim_set_pin p h) = sim_eeprom h"
  "sim_eeprom (sim_clear_pin p h) = sim_eeprom h"
  "sim_eeprom (sim_toggle_pin p h) = sim_eeprom h"
  "sim_eeprom (util_delay_ms ms h) = sim_eeprom h"
  by (simp_all add: sim_set_pin_def sim_clear_pin_def sim_toggle_pin_def util_delay_ms_def
      sim_advance_time_def)

lemma delay_read_pin: "sim_read_pin (util_delay_ms ms h) p = sim_read_pin h p"
  by (simp add: util_delay_ms_def sim_advance_time_def sim_read_pin_def)

lemma factory_reset_loop_eeprom:
  "sim_eeprom (snd (factory_reset_loop st lb it h)) = sim_eeprom h"
proof (induction st lb it h rule: factory_reset_loop.induct)
  case (1 st lb it h)
  show ?case
    apply (subst factory_reset_loop.simps)
    using 1
    apply (simp add: Let_def split_beta hal_eeprom_kept reset_feedback_tick_def
        reset_complete_feedback_def del: factory_reset_loop.simps)
    done
qed

lemma check_factory_reset_eeprom:
  "sim_eeprom (snd (app_init_check_factory_reset h)) = sim_eeprom h"
  by (simp add: app_init_check_factory_reset_def Let_def factory_reset_loop_eeprom
      hal_eeprom_kept del: factory_reset_loop.simps)

lemma check_factory_reset_released:
  "sim_read_pin h button_a_pin \<noteq> 0 \<or> sim_read_pin h button_b_pin \<noteq> 0 \<Longrightarrow>
   app_init_check_factory_reset h = (False, util_delay_ms 10 h)"
  by (auto simp add: app_init_check_factory_reset_def Let_def delay_read_pin
      simp del: factory_reset_loop.simps)

lemma app_init_run_cases:
  "fst (app_init_run s h) =
     (if fst (app_init_check_factory_reset h) then APP_INIT_OK_FACTORY_RESET
      else if fst (load_settings h s) then APP_INIT_OK else APP_INIT_OK_DEFAULTS)"
  "fst (snd (app_init_run s h)) =
     (if \<not> fst (app_init_check_factory_reset h) \<and> fst (load_settings h s)
      then stored_settings h else app_init_get_defaults)"
proof -
  obtain r h1 where c: "app_init_check_factory_reset h = (r, h1)"
    by (cases "app_init_check_factory_reset h") auto
  have "sim_eeprom h1 = sim_eeprom h"
    using check_factory_reset_eeprom [of h] c by simp
  then have l: "load_settings h1 s = load_settings h s"
    by (rule load_settings_eeprom)
  obtain ok s1 where ld: "load_settings h s = (ok, s1)"
    by (cases "load_settings h s") auto
  have s1: "ok \<Longrightarrow> s1 = stored_settings h"
    using load_settings_result [of h s] load_settings_record [of h s] ld by auto
  show "fst (app_init_run s h) =
     (if fst (app_init_check_factory_reset h) then APP_INIT_OK_FACTORY_RESET
      else if fst (load_settings h s) then APP_INIT_OK else APP_INIT_OK_DEFAULTS)"
    by (simp add: app_init_run_def c l ld Let_def del: factory_reset_loop.simps)
  show "fst (snd (app_init_run s h)) =
     (if \<not> fst (app_init_check_factory_reset h) \<and> fst (load_settings h s)
      then stored_settings h else app_init_get_defaults)"
    using s1 by (auto simp add: app_init_run_def c l ld Let_def simp del: factory_reset_loop.simps)
qed

lemma defaults_in_range: "settings_in_range app_init_get_defaults"
  by (simp add: settings_in_range_def app_init_get_defaults_def MODE_GATE_def MODE_COUNT_def
      TRIGGER_PULSE_COUNT_def TRIGGER_EDGE_COUNT_def DIVIDE_DIVISOR_COUNT_def
      CYCLE_TEMPO_COUNT_def TOGGLE_EDGE_COUNT_def GATE_A_MODE_COUNT_def)

lemma app_init_run_in_range: "settings_in_range (fst (snd (app_init_run s h)))"
  using load_settings_result [of h s]
  by (simp add: app_init_run_cases defaults_in_range)


lemma cleared_magic:
  "sim_eeprom_read_word (h\<lparr>sim_eeprom := (\<lambda>_. 0xFF)\<rparr>) EEPROM_MAGIC_ADDR = 0xFFFF"
  by (simp add: sim_eeprom_read_word_def sim_eeprom_read_byte_def)

lemma cleared_load:
  "fst (load_settings (h\<lparr>sim_eeprom := (\<lambda>_. 0xFF)\<rparr>) s) = False"
  unfolding load_settings_result cleared_magic
  by (simp add: EEPROM_MAGIC_VALUE_def)

lemma read_pin_eeprom_update:
  "sim_read_pin (h\<lparr>sim_eeprom := e\<rparr>) p = sim_read_pin h p"
  "sim_read_pin (app_init_save_settings s h) p = sim_read_pin h p"
  by (simp_all add: sim_read_pin_def saved_other)

text \<open>
  Claim C5. \<open>load_settings\<close> succeeds exactly when all four levels pass: the word
  at address 0 (low byte first) is the magic 0x474B, the byte at address 2 is the schema
  version 2, the byte at address 0x10 is the XOR of the eight stored settings bytes,
  and each of the first seven stored fields is below its bound. When level 1 or 2
  fails nothing has been read into the caller's record; otherwise it holds the stored
  bytes. \<open>app_init_run\<close> returns the stored record only when there is no factory reset
  and the loader succeeds, and the defaults in every other case; so the record it
  returns is always in range.
\<close>

theorem load_settings_validation:
  "fst (load_settings h s) =
     (sim_eeprom_read_word h 0 = 0x474B
      \<and> sim_eeprom_read_byte h 2 = 2
      \<and> sim_eeprom_read_byte h 0x10 =
          sim_eeprom_read_byte h 3 XOR sim_eeprom_read_byte h 4 XOR sim_eeprom_read_byte h 5
            XOR sim_eeprom_read_byte h 6 XOR sim_eeprom_read_byte h 7
            XOR sim_eeprom_read_byte h 8 XOR sim_eeprom_read_byte h 9
            XOR sim_eeprom_read_byte h 10
      \<and> settings_in_range (stored_settings h))
   \<and> snd (load_settings h s) =
       (if sim_eeprom_read_word h 0 = 0x474B \<and> sim_eeprom_read_byte h 2 = 2
        then stored_settings h else s)
   \<and> fst (app_init_run s h) =
       (if fst (app_init_check_factory_reset h) then APP_INIT_OK_FACTORY_RESET
        else if fst (load_settings h s) then APP_INIT_OK else APP_INIT_OK_DEFAULTS)
   \<and> fst (snd (app_init_run s h)) =
       (if \<not> fst (app_init_check_factory_reset h) \<and> fst (load_settings h s)
        then stored_settings h else app_init_get_defaults)
   \<and> settings_in_range (fst (snd (app_init_run s h)))"
  using load_settings_result [of h s] load_settings_record [of h s]
    app_init_run_cases [of s h] app_init_run_in_range [of s h]
    calculate_checksum_xor [of "stored_settings h"]
  by (simp add: stored_settings_def EEPROM_MAGIC_ADDR_def EEPROM_MAGIC_VALUE_def
      EEPROM_SCHEMA_ADDR_def SETTINGS_SCHEMA_VERSION_def EEPROM_CHECKSUM_ADDR_def
      del: factory_reset_loop.simps)

theorem load_settings_validation_witness:
  "\<not> settings_in_range
       \<lparr>mode = 9, trigger_pulse_idx = 0, trigger_edge = 0, divide_divisor_idx = 0,
        cycle_tempo_idx = 0, toggle_edge = 0, gate_a_mode = 0, reserved = 0\<rparr>
   \<and> \<not> fst (app_init_check_factory_reset
        (app_init_save_settings
           \<lparr>mode = 9, trigger_pulse_idx = 0, trigger_edge = 0, divide_divisor_idx = 0,
            cycle_tempo_idx = 0, toggle_edge = 0, gate_a_mode = 0, reserved = 0\<rparr>
           (hal_at 0 False False 0)))
   \<and> \<not> fst (load_settings
        (app_init_save_settings
           \<lparr>mode = 9, trigger_pulse_idx = 0, trigger_edge = 0, divide_divisor_idx = 0,
            cycle_tempo_idx = 0, toggle_edge = 0, gate_a_mode = 0, reserved = 0\<rparr>
           (hal_at 0 False False 0)) app_init_get_defaults)
   \<and> snd (load_settings
        (app_init_save_settings
           \<lparr>mode = 9, trigger_pulse_idx = 0, trigger_edge = 0, divide_divisor_idx = 0,
            cycle_tempo_idx = 0, toggle_edge = 0, gate_a_mode = 0, reserved = 0\<rparr>
           (hal_at 0 False False 0)) app_init_get_defaults)
       = \<lparr>mode = 9, trigger_pulse_idx = 0, trigger_edge = 0, divide_divisor_idx = 0,
          cycle_tempo_idx = 0, toggle_edge = 0, gate_a_mode = 0, reserved = 0\<rparr>
   \<and> fst (app_init_run app_init_get_defaults
        (app_init_save_settings
           \<lparr>mode = 9, trigger_pulse_idx = 0, trigger_edge = 0, divide_divisor_idx = 0,
            cycle_tempo_idx = 0, toggle_edge = 0, gate_a_mode = 0, reserved = 0\<rparr>
           (hal_at 0 False False 0))) = APP_INIT_OK_DEFAULTS
   \<and> fst (snd (app_init_run app_init_get_defaults
        (app_init_save_settings
           \<lparr>mode = 9, trigger_pulse_idx = 0, trigger_edge = 0, divide_divisor_idx = 0,
            cycle_tempo_idx = 0, toggle_edge = 0, gate_a_mode = 0, reserved = 0\<rparr>
           (hal_at 0 False False 0)))) = app_init_get_defaults"
proof -
  let ?s = "\<lparr>mode = 9, trigger_pulse_idx = 0, trigger_edge = 0, divide_divisor_idx = 0,
             cycle_tempo_idx = 0, toggle_edge = 0, gate_a_mode = 0, reserved = 0\<rparr>"
  let ?h = "app_init_save_settings ?s (hal_at 0 False False 0)"
  note inst = load_settings_validation [of ?h app_init_get_defaults]
  have nr: "\<not> settings_in_range ?s"
    by (simp add: settings_in_range_def MODE_COUNT_def)
  have st: "stored_settings ?h = ?s"
    by (simp add: saved_reads)
  have hdr: "sim_eeprom_read_word ?h 0 = 0x474B" "sim_eeprom_read_byte ?h 2 = 2"
    using saved_reads(1,2) [of ?s "hal_at 0 False False 0"]
    by (simp_all add: EEPROM_MAGIC_ADDR_def EEPROM_MAGIC_VALUE_def EEPROM_SCHEMA_ADDR_def
        SETTINGS_SCHEMA_VERSION_def)
  have fr: "\<not> fst (app_init_check_factory_reset ?h)"
    by (subst check_factory_reset_released) (simp_all add: read_pin_eeprom_update hal_at_simps)
  have l1: "\<not> fst (load_settings ?h app_init_get_defaults)"
    unfolding inst [THEN conjunct1] st using nr by blast
  have l2: "snd (load_settings ?h app_init_get_defaults) = ?s"
    unfolding inst [THEN conjunct2, THEN conjunct1] st using hdr by simp
  have r1: "fst (app_init_run app_init_get_defaults ?h) = APP_INIT_OK_DEFAULTS"
    unfolding inst [THEN conjunct2, THEN conjunct2, THEN conjunct1] using fr l1 by simp
  have r2: "fst (snd (app_init_run app_init_get_defaults ?h)) = app_init_get_defaults"
    unfolding inst [THEN conjunct2, THEN conjunct2, THEN conjunct2, THEN conjunct1]
    using l1 by simp
  from nr fr l1 l2 r1 r2 show ?thesis by blast
qed

text \<open>
  Claim C4. When at least one button reads released at boot (so the factory-reset
  check returns "no reset") and the first seven fields of a record are below their
  bounds, saving the record and running the startup load returns \<open>APP_INIT_OK\<close> and the
  same record, equal in all eight bytes; and the startup load on a cleared store (every
  byte 0xFF) returns \<open>APP_INIT_OK_DEFAULTS\<close> and the defaults record. The record passed
  to the load, \<open>s0\<close>, is arbitrary.
\<close>

theorem save_load_roundtrip:
  assumes "settings_in_range s"
    and "sim_read_pin h button_a_pin \<noteq> 0 \<or> sim_read_pin h button_b_pin \<noteq> 0"
  shows "fst (app_init_run s0 (app_init_save_settings s h)) = APP_INIT_OK
       \<and> fst (snd (app_init_run s0 (app_init_save_settings s h))) = s
       \<and> settings_bytes (fst (snd (app_init_run s0 (app_init_save_settings s h))))
           = settings_bytes s
       \<and> fst (app_init_run s0 (h\<lparr>sim_eeprom := (\<lambda>_. 0xFF)\<rparr>)) = APP_INIT_OK_DEFAULTS
       \<and> fst (snd (app_init_run s0 (h\<lparr>sim_eeprom := (\<lambda>_. 0xFF)\<rparr>))) = app_init_get_defaults"
proof -
  have r1: "\<not> fst (app_init_check_factory_reset (app_init_save_settings s h))"
    using assms(2) by (subst check_factory_reset_released) (simp_all add: read_pin_eeprom_update)
  have r2: "\<not> fst (app_init_check_factory_reset (h\<lparr>sim_eeprom := (\<lambda>_. 0xFF)\<rparr>))"
    using assms(2) by (subst check_factory_reset_released) (simp_all add: read_pin_eeprom_update)
  show ?thesis
    using assms(1) r1 r2
    by (simp add: app_init_run_cases load_after_save saved_reads cleared_load
        del: factory_reset_loop.simps)
qed

theorem save_load_roundtrip_witness:
  "settings_in_range
     \<lparr>mode = 1, trigger_pulse_idx = 1, trigger_edge = 0, divide_divisor_idx = 2,
      cycle_tempo_idx = 3, toggle_edge = 0, gate_a_mode = 0, reserved = 0\<rparr>
   \<and> sim_read_pin (hal_at 0 False False 0) button_a_pin = 1
   \<and> sim_read_pin (hal_at 0 False False 0) button_b_pin = 1
   \<and> fst (app_init_run app_init_get_defaults
        (app_init_save_settings
           \<lparr>mode = 1, trigger_pulse_idx = 1, trigger_edge = 0, divide_divisor_idx = 2,
            cycle_tempo_idx = 3, toggle_edge = 0, gate_a_mode = 0, reserved = 0\<rparr>
           (hal_at 0 False False 0))) = APP_INIT_OK
   \<and> fst (snd (app_init_run app_init_get_defaults
        (app_init_save_settings
           \<lparr>mode = 1, trigger_pulse_idx = 1, trigger_edge = 0, divide_divisor_idx = 2,
            cycle_tempo_idx = 3, toggle_edge = 0, gate_a_mode = 0, reserved = 0\<rparr>
           (hal_at 0 False False 0))))
       = \<lparr>mode = 1, trigger_pulse_idx = 1, trigger_edge = 0, divide_divisor_idx = 2,
          cycle_tempo_idx = 3, toggle_edge = 0, gate_a_mode = 0, reserved = 0\<rparr>"
proof -
  let ?s = "\<lparr>mode = 1, trigger_pulse_idx = 1, trigger_edge = 0, divide_divisor_idx = 2,
             cycle_tempo_idx = 3, toggle_edge = 0, gate_a_mode = 0, reserved = 0\<rparr>"
  have rng: "settings_in_range ?s"
    by (simp add: settings_in_range_def MODE_COUNT_def TRIGGER_PULSE_COUNT_def
        TRIGGER_EDGE_COUNT_def DIVIDE_DIVISOR_COUNT_def CYCLE_TEMPO_COUNT_def
        TOGGLE_EDGE_COUNT_def GATE_A_MODE_COUNT_def)
  have pins: "sim_read_pin (hal_at 0 False False 0) button_a_pin \<noteq> 0
      \<or> sim_read_pin (hal_at 0 False False 0) button_b_pin \<noteq> 0"
    by (simp add: hal_at_simps)
  have released: "sim_read_pin (hal_at 0 False False 0) button_a_pin = 1"
    "sim_read_pin (hal_at 0 False False 0) button_b_pin = 1"
    by (simp_all add: hal_at_simps)
  show ?thesis
    using rng released save_load_roundtrip [OF rng pins, of app_init_get_defaults] by blast
qed

section \<open>Properties: state machines and coordinator\<close>

text \<open>
  The state tables of the coordinator declare no callback, so entering, leaving and
  forcing a state reduce to the assignment of the current state.
\<close>

lemma find_state_loop_result:
  "find_state_loop ss sid i = 0xFF
   \<or> (\<exists>k < length ss. find_state_loop ss sid i = i + of_nat k)"
proof (induction ss arbitrary: i)
  case Nil
  then show ?case by simp
next
  case (Cons s ss)
  show ?case
  proof (cases "id_state s = sid")
    case True
    then have "find_state_loop (s # ss) sid i = i + of_nat 0" by simp
    then show ?thesis by blast
  next
    case False
    from Cons.IH [of "i + 1"] show ?thesis
    proof
      assume "find_state_loop ss sid (i + 1) = 0xFF"
      then show ?thesis using False by simp
    next
      assume "\<exists>k<length ss. find_state_loop ss sid (i + 1) = i + 1 + of_nat k"
      then obtain k where k: "k < length ss" "find_state_loop ss sid (i + 1) = i + 1 + of_nat k"
        by blast
      then have "find_state_loop (s # ss) sid i = i + of_nat (Suc k)" "Suc k < length (s # ss)"
        using False by simp_all
      then show ?thesis by blast
    qed
  qed
qed

lemma state_tables_length: "length (state_tables p :: 'g State list) \<le> 8"
  by (cases p) (simp_all add: state_tables_def top_states_def mode_states_def menu_states_def)

lemma state_tables_rows:
  "k < length (state_tables p :: 'g State list) \<Longrightarrow>
   on_enter (state_tables p ! k :: 'g State) = None
   \<and> on_exit (state_tables p ! k :: 'g State) = None
   \<and> on_update (state_tables p ! k :: 'g State) = None"
proof -
  have "\<forall>r \<in> set (state_tables p :: 'g State list).
          on_enter r = None \<and> on_exit r = None \<and> on_update r = None"
    by (cases p) (simp_all add: state_tables_def top_states_def mode_states_def
        menu_states_def state_row_def)
  then show "k < length (state_tables p :: 'g State list) \<Longrightarrow> ?thesis"
    using nth_mem by blast
qed

lemma state_tables_found:
  assumes "find_state_index (state_tables :: StateTable \<Rightarrow> 'g State list) fsm sid \<noteq> 0xFF"
  shows "\<exists>p. states fsm = Some p
           \<and> unat (find_state_index (state_tables :: StateTable \<Rightarrow> 'g State list) fsm sid)
               < length (state_tables p :: 'g State list)"
proof -
  from assms obtain p where p: "states fsm = Some p"
    by (cases "states fsm") (auto simp add: find_state_index_def)
  let ?ss = "take (unat (num_states fsm)) (state_tables p :: 'g State list)"
  have idx: "find_state_index (state_tables :: StateTable \<Rightarrow> 'g State list) fsm sid
               = find_state_loop ?ss sid 0"
    by (simp add: find_state_index_def p)
  have ne: "find_state_loop ?ss sid 0 \<noteq> 0xFF"
    using assms idx by simp
  then obtain k where k: "k < length ?ss" "find_state_loop ?ss sid 0 = 0 + of_nat k"
    using find_state_loop_result [of ?ss sid 0] by blast
  have kl: "k < length (state_tables p :: 'g State list)" using k(1) by simp
  then have "k < 256" using state_tables_length [of p, where ?'g = 'g] by simp
  then have "unat (of_nat k :: u8) = k" by (simp add: unat_of_nat)
  then have "unat (find_state_index (state_tables :: StateTable \<Rightarrow> 'g State list) fsm sid) = k"
    using idx k(2) by simp
  then show ?thesis using p kl by simp
qed

lemma no_state_callbacks:
  fixes g :: 'g
  shows "call_entry_action state_tables fsm sid g = g"
    and "call_exit_action state_tables fsm sid g = g"
proof -
  let ?idx = "find_state_index (state_tables :: StateTable \<Rightarrow> 'g State list) fsm sid"
  have rows: "?idx \<noteq> 0xFF \<Longrightarrow>
     on_enter (state_tables (the (states fsm)) ! unat ?idx :: 'g State) = None
     \<and> on_exit (state_tables (the (states fsm)) ! unat ?idx :: 'g State) = None"
  proof -
    assume "?idx \<noteq> 0xFF"
    from state_tables_found [OF this] obtain p where
      p: "states fsm = Some p" "unat ?idx < length (state_tables p :: 'g State list)"
      by blast
    from state_tables_rows [OF p(2)] p(1) show ?thesis by simp
  qed
  show "call_entry_action state_tables fsm sid g = g"
    using rows by (cases "?idx = 0xFF") (simp_all add: call_entry_action_def Let_def)
  show "call_exit_action state_tables fsm sid g = g"
    using rows by (cases "?idx = 0xFF") (simp_all add: call_exit_action_def Let_def)
qed

lemma set_state_no_callbacks:
  "fsm_set_state state_tables fp s g = fsm_put fp ((fsm_get fp g)\<lparr>current_state := s\<rparr>) g"
  by (simp add: fsm_set_state_def Let_def no_state_callbacks)

lemma fsm_start_no_callbacks:
  "fsm_start state_tables fp g = fsm_put fp ((fsm_get fp g)\<lparr>active := True\<rparr>) g"
  by (simp add: fsm_start_def Let_def no_state_callbacks)

lemma fsm_ptr_simps:
  "fsm_get top_fsm_ptr w = top_fsm (coord w)"
  "fsm_get mode_fsm_ptr w = mode_fsm (coord w)"
  "fsm_get menu_fsm_ptr w = menu_fsm (coord w)"
  "fsm_put top_fsm_ptr f w = w\<lparr>coord := (coord w)\<lparr>top_fsm := f\<rparr>\<rparr>"
  "fsm_put mode_fsm_ptr f w = w\<lparr>coord := (coord w)\<lparr>mode_fsm := f\<rparr>\<rparr>"
  "fsm_put menu_fsm_ptr f w = w\<lparr>coord := (coord w)\<lparr>menu_fsm := f\<rparr>\<rparr>"
  by (simp_all add: top_fsm_ptr_def mode_fsm_ptr_def menu_fsm_ptr_def)

lemma fsm_process_loop_keeps:
  assumes put: "\<And>f g. Q (fsm_put fp f g) = Q g"
    and acts: "\<And>t f g. t \<in> set ts \<Longrightarrow> action t = Some f \<Longrightarrow> Q (f g) = Q g"
  shows "Q (snd (fsm_process_loop state_tables fp ev ts g)) = Q g"
  using acts
proof (induction ts)
  case Nil
  then show ?case by simp
next
  case (Cons t ts)
  have a: "\<And>f g. action t = Some f \<Longrightarrow> Q (f g) = Q g"
    by (rule Cons.prems [of t]) simp_all
  have ih: "Q (snd (fsm_process_loop state_tables fp ev ts g)) = Q g"
  proof (rule Cons.IH)
    fix t' f g
    assume "t' \<in> set ts" "action t' = Some f"
    then show "Q (f g) = Q g" by (intro Cons.prems [of t' f g]) simp_all
  qed
  show ?case
    using a ih by (cases "action t") (simp_all add: Let_def no_state_callbacks put)
qed

lemma fsm_process_event_keeps:
  assumes put: "\<And>f g. Q (fsm_put fp f g) = Q g"
    and acts: "\<And>p t f g. t \<in> set (pgm_t p) \<Longrightarrow> action t = Some f \<Longrightarrow> Q (f g) = Q g"
  shows "Q (snd (fsm_process_event state_tables pgm_t fp ev g)) = Q g"
proof (cases "transitions (fsm_get fp g)")
  case None
  then show ?thesis by (simp add: fsm_process_event_def Let_def)
next
  case (Some p)
  have "Q (snd (fsm_process_loop state_tables fp ev
          (take (unat (num_transitions (fsm_get fp g))) (pgm_t p)) g)) = Q g"
  proof (rule fsm_process_loop_keeps [where Q = Q and fp = fp, OF put])
    fix t f g'
    assume m: "t \<in> set (take (unat (num_transitions (fsm_get fp g))) (pgm_t p))"
      and a: "action t = Some f"
    from m have "t \<in> set (pgm_t p)" by (rule in_set_takeD)
    then show "Q (f g') = Q g'" using a by (rule acts)
  qed
  then show ?thesis
    by (simp add: fsm_process_event_def Let_def Some)
qed

lemma coordinator_actions:
  "t \<in> set (transition_tables mh p) \<Longrightarrow> action t = Some f \<Longrightarrow>
   f = action_enter_menu \<or> f = action_exit_menu \<or> f = action_next_mode mh
   \<or> f = action_next_page \<or> f = action_cycle_value mh"
  by (cases p) (auto simp add: transition_tables_def top_transitions_def mode_transitions_def
      menu_transitions_def)

lemma actions_keep_events:
  "events (coord (action_enter_menu w)) = events (coord w)"
  "events (coord (action_exit_menu w)) = events (coord w)"
  "events (coord (action_next_mode mh w)) = events (coord w)"
  "events (coord (action_next_page w)) = events (coord w)"
  "events (coord (action_cycle_value mh w)) = events (coord w)"
  by (simp_all add: action_enter_menu_def action_exit_menu_def action_next_mode_def
      action_next_page_def action_cycle_value_def Let_def split_beta set_state_no_callbacks
      fsm_ptr_simps split: option.split)

lemma process_event_keeps_events:
  assumes "fp = top_fsm_ptr \<or> fp = mode_fsm_ptr \<or> fp = menu_fsm_ptr"
  shows "events (coord (snd (fsm_process_event state_tables (transition_tables mh) fp ev w)))
           = events (coord w)"
proof (rule fsm_process_event_keeps [where Q = "\<lambda>w. events (coord w)"])
  show "\<And>f g. events (coord (fsm_put fp f g)) = events (coord g)"
    using assms by (auto simp add: fsm_ptr_simps)
  show "\<And>p t f g. t \<in> set (transition_tables mh p) \<Longrightarrow> action t = Some f \<Longrightarrow>
          events (coord (f g)) = events (coord g)"
    using coordinator_actions actions_keep_events by blast
qed

lemma route_keeps_events:
  "events (coord (coordinator_route mh ev w)) = events (coord w)"
  by (simp add: coordinator_route_def Let_def split_beta process_event_keeps_events)

lemma timeout_keeps_events:
  "events (coord (coordinator_timeout mh w)) = events (coord w)"
  by (simp add: coordinator_timeout_def Let_def process_event_keeps_events)

lemma run_mode_keeps_events:
  "events (coord (coordinator_run_mode mh cv w)) = events (coord w)"
  by (simp add: coordinator_run_mode_def Let_def split_beta)

lemma coordinator_sample_events:
  "events (coord (snd (snd (coordinator_sample w)))) =
     snd (event_processor_update (events (coord w))
       \<lparr>button_a = (sim_read_pin (hal w) button_a_pin = 0),
        button_b = (sim_read_pin (hal w) button_b_pin = 0),
        cv_in = fst (cv_input_update (cv_input_c (coord w)) (sim_adc_read (hal w) CV_ADC_CHANNEL)),
        current_time = sim_millis (hal w)\<rparr>)"
  "fst (snd (coordinator_sample w)) =
     fst (event_processor_update (events (coord w))
       \<lparr>button_a = (sim_read_pin (hal w) button_a_pin = 0),
        button_b = (sim_read_pin (hal w) button_b_pin = 0),
        cv_in = fst (cv_input_update (cv_input_c (coord w)) (sim_adc_read (hal w) CV_ADC_CHANNEL)),
        current_time = sim_millis (hal w)\<rparr>)"
  by (simp_all add: coordinator_sample_def Let_def split_beta)

lemma coordinator_update_events:
  "events (coord (coordinator_update mh w)) =
     snd (event_processor_update (events (coord w))
       \<lparr>button_a = (sim_read_pin (hal w) button_a_pin = 0),
        button_b = (sim_read_pin (hal w) button_b_pin = 0),
        cv_in = fst (cv_input_update (cv_input_c (coord w)) (sim_adc_read (hal w) CV_ADC_CHANNEL)),
        current_time = sim_millis (hal w)\<rparr>)"
  using coordinator_sample_events(1) [of "w\<lparr>g_coord := True\<rparr>"]
  by (simp add: coordinator_update_def Let_def split_beta run_mode_keeps_events
      timeout_keeps_events route_keeps_events)

lemma fsm_process_loop_no_row:
  "list_all (\<lambda>t. event t \<noteq> ev) ts \<Longrightarrow> fsm_process_loop pgm fp ev ts g = (False, g)"
  by (induction ts) (simp_all add: Let_def)

lemma list_all_take: "list_all P xs \<Longrightarrow> list_all P (take n xs)"
  by (auto simp add: list_all_iff dest: in_set_takeD)

lemma no_a_hold_rows:
  "list_all (\<lambda>t. event t \<noteq> event_id EVT_A_HOLD) (transition_tables mh p)"
  by (cases p) (simp_all add: transition_tables_def top_transitions_def mode_transitions_def
      menu_transitions_def)

lemma process_a_hold:
  "fsm_process_event state_tables (transition_tables mh) fp (event_id EVT_A_HOLD) w = (False, w)"
proof (cases "transitions (fsm_get fp w)")
  case None
  then show ?thesis by (simp add: fsm_process_event_def Let_def)
next
  case (Some p)
  have "fsm_process_loop state_tables fp (event_id EVT_A_HOLD)
          (take (unat (num_transitions (fsm_get fp w))) (transition_tables mh p)) w = (False, w)"
    by (rule fsm_process_loop_no_row) (rule list_all_take, rule no_a_hold_rows)
  then show ?thesis
    by (simp add: fsm_process_event_def Let_def Some)
qed

lemma route_a_hold:
  "coordinator_route mh EVT_A_HOLD w =
     (if fsm_get_state (top_fsm (coord w)) = TOP_MENU
      then w\<lparr>coord := (coord w)\<lparr>last_activity := sim_millis (hal w)\<rparr>\<rparr>
      else w)"
  by (simp add: coordinator_route_def Let_def process_a_hold del: event_id.simps)

lemma boot_world_eq:
  "boot_world h =
     \<lparr>g_coord = False,
      coord =
        \<lparr>top_fsm = (fsm_init (Some Top_states) TOP_STATE_COUNT (Some Top_transitions) 3
                      TOP_PERFORM)\<lparr>active := True\<rparr>,
         mode_fsm = (fsm_init (Some Mode_states) MODE_COUNT (Some Mode_transitions) 1
                       MODE_GATE)\<lparr>active := True\<rparr>,
         menu_fsm = (fsm_init (Some Menu_states) PAGE_COUNT (Some Menu_transitions) 2
                       PAGE_GATE_CV)\<lparr>active := True\<rparr>,
         events = event_processor_init,
         cv_input_c = cv_input_init,
         menu_entry_mode = MODE_GATE, menu_enter_time = 0, last_activity = sim_millis h,
         settings = Some app_init_get_defaults, mode_ctx = False, output_state = False\<rparr>,
      hal = h\<rparr>"
  by (simp add: boot_world_def coordinator_start_def coordinator_init_def Let_def
      fsm_start_no_callbacks fsm_ptr_simps zero_coordinator_def gate_handlers_def)

lemma coordinator_sample_keeps:
  "top_fsm (coord (snd (snd (coordinator_sample w)))) = top_fsm (coord w)"
  "mode_fsm (coord (snd (snd (coordinator_sample w)))) = mode_fsm (coord w)"
  "menu_fsm (coord (snd (snd (coordinator_sample w)))) = menu_fsm (coord w)"
  "settings (coord (snd (snd (coordinator_sample w)))) = settings (coord w)"
  "last_activity (coord (snd (snd (coordinator_sample w)))) = last_activity (coord w)"
  "hal (snd (snd (coordinator_sample w))) = hal w"
  "g_coord (snd (snd (coordinator_sample w))) = g_coord w"
  by (simp_all add: coordinator_sample_def Let_def split_beta)

lemma coordinator_run_mode_keeps:
  "top_fsm (coord (coordinator_run_mode mh cv w)) = top_fsm (coord w)"
  "mode_fsm (coord (coordinator_run_mode mh cv w)) = mode_fsm (coord w)"
  "menu_fsm (coord (coordinator_run_mode mh cv w)) = menu_fsm (coord w)"
  "settings (coord (coordinator_run_mode mh cv w)) = settings (coord w)"
  "hal (coordinator_run_mode mh cv w) = hal w"
  by (simp_all add: coordinator_run_mode_def Let_def split_beta)

lemma timeout_not_due:
  "last_activity (coord w) = sim_millis (hal w) \<Longrightarrow> coordinator_timeout mh w = w"
  by (simp add: coordinator_timeout_def Let_def MENU_TIMEOUT_MS_def)

lemma update_a_hold_in_menu:
  assumes ev: "fst (snd (coordinator_sample (w\<lparr>g_coord := True\<rparr>))) = EVT_A_HOLD"
    and menu: "fsm_get_state (top_fsm (coord w)) = TOP_MENU"
  shows "top_fsm (coord (coordinator_update mh w)) = top_fsm (coord w)"
    and "mode_fsm (coord (coordinator_update mh w)) = mode_fsm (coord w)"
    and "menu_fsm (coord (coordinator_update mh w)) = menu_fsm (coord w)"
    and "settings (coord (coordinator_update mh w)) = settings (coord w)"
    and "hal (coordinator_update mh w) = hal w"
proof -
  let ?w = "w\<lparr>g_coord := True\<rparr>"
  let ?w1 = "snd (snd (coordinator_sample ?w))"
  let ?w2 = "coordinator_route mh EVT_A_HOLD ?w1"
  have top1: "fsm_get_state (top_fsm (coord ?w1)) = TOP_MENU"
    using menu by (simp add: coordinator_sample_keeps)
  have w2: "?w2 = ?w1\<lparr>coord := (coord ?w1)\<lparr>last_activity := sim_millis (hal ?w1)\<rparr>\<rparr>"
    using top1 by (simp add: route_a_hold)
  have w3: "coordinator_timeout mh ?w2 = ?w2"
    by (rule timeout_not_due) (simp add: w2)
  have upd: "coordinator_update mh w =
       (coordinator_run_mode mh (fst (coordinator_sample ?w)) ?w2)\<lparr>g_coord := False\<rparr>"
    using ev w3 by (simp add: coordinator_update_def Let_def split_beta)
  show "top_fsm (coord (coordinator_update mh w)) = top_fsm (coord w)"
    and "mode_fsm (coord (coordinator_update mh w)) = mode_fsm (coord w)"
    and "menu_fsm (coord (coordinator_update mh w)) = menu_fsm (coord w)"
    and "settings (coord (coordinator_update mh w)) = settings (coord w)"
    and "hal (coordinator_update mh w) = hal w"
    unfolding upd by (simp_all add: coordinator_run_mode_keeps w2 coordinator_sample_keeps)
qed

lemma menu_hold_world_fields:
  "events (coord (menu_hold_world t)) =
     \<lparr>status = EP_A_PRESSED OR EP_A_LAST, ext_status = 0, a_press_time = 2100,
      b_press_time = 200\<rparr>"
  "hal (menu_hold_world t) = hal_at t True False 0"
  "fsm_get_state (top_fsm (coord (menu_hold_world t))) = TOP_MENU"
  "fsm_get_state (mode_fsm (coord (menu_hold_world t))) = MODE_GATE"
  "fsm_get_state (menu_fsm (coord (menu_hold_world t))) = PAGE_GATE_CV"
  by (simp_all add: menu_hold_world_def boot_world_eq Let_def fsm_get_state_def fsm_init_def)

lemma menu_hold_event:
  "fst (snd (coordinator_sample ((menu_hold_world 2600)\<lparr>g_coord := True\<rparr>))) = EVT_A_HOLD"
  by (simp add: coordinator_sample_events menu_hold_world_fields hal_at_simps
      event_processor_update_def Let_def ep_stages status_bits EP_HOLD_THRESHOLD_MS_def)

text \<open>
  Claim C1 against the code. No row of the three transition tables has the event
  A-hold, so routing an A-hold changes no FSM state and runs no action: in MENU it only
  refreshes the activity time. In the state \<open>menu_hold_world 2600\<close> (top state MENU,
  A held alone since 2100 ms) the tick at 2600 ms delivers A-hold, and after
  \<open>coordinator_update\<close> the top state is still MENU, mode and page are unchanged, and
  the EEPROM has not been written: the exit-menu action did not run.
\<close>

theorem menu_a_hold_not_wired:
  "map (\<lambda>t. (from_state t, event t, to_state t)) (top_transitions :: bool World Transition list)
     = [(TOP_PERFORM, event_id EVT_MENU_TOGGLE, TOP_MENU),
        (TOP_MENU, event_id EVT_MENU_TOGGLE, TOP_PERFORM),
        (TOP_MENU, event_id EVT_TIMEOUT, TOP_PERFORM)]
   \<and> coordinator_route mh EVT_A_HOLD w =
       (if fsm_get_state (top_fsm (coord w)) = TOP_MENU
        then w\<lparr>coord := (coord w)\<lparr>last_activity := sim_millis (hal w)\<rparr>\<rparr>
        else w)
   \<and> fst (snd (coordinator_sample ((menu_hold_world 2600)\<lparr>g_coord := True\<rparr>))) = EVT_A_HOLD
   \<and> coordinator_get_top_state (coord (menu_hold_world 2600)) = TOP_MENU
   \<and> coordinator_get_top_state (coord (coordinator_update gate_handlers (menu_hold_world 2600)))
       = TOP_MENU
   \<and> coordinator_get_mode (coord (coordinator_update gate_handlers (menu_hold_world 2600)))
       = MODE_GATE
   \<and> sim_eeprom (hal (coordinator_update gate_handlers (menu_hold_world 2600)))
       = (\<lambda>_. 0xFF)"
  using update_a_hold_in_menu [OF menu_hold_event menu_hold_world_fields(3), of gate_handlers]
    route_a_hold [of mh w] menu_hold_event
    menu_hold_world_fields(3,4) [of 2600, unfolded fsm_get_state_def]
  by (simp add: coordinator_get_top_state_def coordinator_get_mode_def menu_hold_world_fields
      top_transitions_def hal_at_def fsm_get_state_def del: event_id.simps)

lemma ep_update_last_bits:
  "bit (EventProcessor.status (snd (event_processor_update ep inp))) 1 = button_a inp"
  "bit (EventProcessor.status (snd (event_processor_update ep inp))) 4 = button_b inp"
  "bit (EventProcessor.status (snd (event_processor_update ep inp))) (Suc 0) = button_a inp"
  by (simp_all add: event_processor_update_def Let_def ep_stages)

lemma ep_update_press_event:
  assumes "\<not> bit (EventProcessor.status ep) 1" "button_a inp"
  shows "fst (event_processor_update ep inp) = EVT_A_PRESS"
  using assms by (simp add: event_processor_update_def Let_def ep_stages)

lemma world_hal_update:
  "events (coord (w\<lparr>hal := h\<rparr>)) = events (coord w)"
  "hal (w\<lparr>hal := h\<rparr>) = h"
  "events (coord (w\<lparr>g_coord := b\<rparr>)) = events (coord w)"
  "hal (w\<lparr>g_coord := b\<rparr>) = hal w"
  by simp_all

text \<open>
  Claim C3, amended. On every tick \<open>coordinator_update\<close> feeds the event processor the
  inverted raw HAL samples of the two button pins (pressed = pin low), the CV level
  conditioned by the hysteresis filter, and the HAL time; no \<open>Button\<close> is updated. So
  after the tick the event processor's A-pressed and B-pressed states are the raw pin
  samples of that tick.
\<close>

theorem coordinator_feeds_raw_pins:
  "events (coord (coordinator_update mh w)) =
     snd (event_processor_update (events (coord w))
       \<lparr>button_a = (sim_read_pin (hal w) button_a_pin = 0),
        button_b = (sim_read_pin (hal w) button_b_pin = 0),
        cv_in = fst (cv_input_update (cv_input_c (coord w))
                  (sim_adc_read (hal w) CV_ADC_CHANNEL)),
        current_time = sim_millis (hal w)\<rparr>)
   \<and> event_processor_a_pressed (events (coord (coordinator_update mh w))) =
       (sim_read_pin (hal w) button_a_pin = 0)
   \<and> event_processor_b_pressed (events (coord (coordinator_update mh w))) =
       (sim_read_pin (hal w) button_b_pin = 0)"
  by (simp add: coordinator_update_events ep_update_pressed_bits status_bits
      event_processor_a_pressed_def event_processor_b_pressed_def)

text \<open>
  Claim C3 as stated fails. Button A bounces: pressed at 100 ms, released at 102 ms,
  pressed again at 105 ms. The debounced button rejects the second press (5 ms after
  the previous rising edge): after \<open>button_update\<close> at 105 ms neither the rising-edge
  bit nor the debounced-pressed bit is set. The coordinator, run on the same three
  samples from its started state, delivers an A-press event at 105 ms and its event
  processor holds A as pressed.
\<close>

theorem bounce_reaches_event_processor:
  "\<not> STATUS_ANY (Button.status (button_update (hal_at 105 True False 0)
        (button_update (hal_at 102 False False 0)
          (button_update (hal_at 100 True False 0) (the (button_init button_a_pin))))))
        BTN_RISE
   \<and> \<not> STATUS_ANY (Button.status (button_update (hal_at 105 True False 0)
        (button_update (hal_at 102 False False 0)
          (button_update (hal_at 100 True False 0) (the (button_init button_a_pin))))))
        BTN_PRESSED
   \<and> fst (snd (coordinator_sample
        ((coordinator_update gate_handlers
           ((coordinator_update gate_handlers (boot_world (hal_at 100 True False 0)))
              \<lparr>hal := hal_at 102 False False 0\<rparr>))
           \<lparr>hal := hal_at 105 True False 0, g_coord := True\<rparr>))) = EVT_A_PRESS
   \<and> event_processor_a_pressed (events (coord (coordinator_update gate_handlers
        ((coordinator_update gate_handlers
           ((coordinator_update gate_handlers (boot_world (hal_at 100 True False 0)))
              \<lparr>hal := hal_at 102 False False 0\<rparr>))
           \<lparr>hal := hal_at 105 True False 0\<rparr>))))"
proof -
  let ?b = "button_update (hal_at 105 True False 0)
        (button_update (hal_at 102 False False 0)
          (button_update (hal_at 100 True False 0) (the (button_init button_a_pin))))"
  let ?w2 = "coordinator_update gate_handlers
           ((coordinator_update gate_handlers (boot_world (hal_at 100 True False 0)))
              \<lparr>hal := hal_at 102 False False 0\<rparr>)"
  have b: "\<not> STATUS_ANY (Button.status ?b) BTN_RISE" "\<not> STATUS_ANY (Button.status ?b) BTN_PRESSED"
    by (simp_all add: status_bits button_update_bits button_update_rise_time
        button_update_fall_time button_update_last button_update_pin hal_at_simps button_init_a
        EDGE_DEBOUNCE_MS_def)
  have last: "\<not> bit (EventProcessor.status (events (coord ?w2))) (Suc 0)"
    by (simp add: coordinator_update_events ep_update_last_bits hal_at_simps)
  have ev: "fst (snd (coordinator_sample
        (?w2\<lparr>hal := hal_at 105 True False 0, g_coord := True\<rparr>))) = EVT_A_PRESS"
    unfolding coordinator_sample_events(2)
    by (rule ep_update_press_event) (simp_all add: last hal_at_simps)
  have pr: "event_processor_a_pressed (events (coord (coordinator_update gate_handlers
        (?w2\<lparr>hal := hal_at 105 True False 0\<rparr>))))"
    by (simp add: event_processor_a_pressed_def status_bits coordinator_update_events
        ep_update_pressed_bits hal_at_simps)
  from b ev pr show ?thesis by blast
qed














end
